theory Spec2Isabelle
  imports Complex_Main
begin

section \<open>Python strings\<close>

text \<open>
  A Python \<open>str\<close> is modelled as a \<open>string\<close> whose characters are code points
  below 256.  The functions of this section are the string methods and the three regular
  expressions that \<open>model/agent.py\<close> uses.
\<close>

definition QUOTE :: char where
  "QUOTE = CHR 0x27"

definition DQUOTE :: char where
  "DQUOTE = CHR 0x22"

definition NEWLINE :: char where
  "NEWLINE = CHR 0x0A"

text \<open>\<open>s.replace(old, new)\<close> for a non-empty \<open>old\<close>: leftmost occurrences, not overlapping.\<close>

function replace_from :: "string \<Rightarrow> string \<Rightarrow> string \<Rightarrow> string" where
  "replace_from old new [] = []"
| "replace_from old new (c # cs) =
     (if old \<noteq> [] \<and> take (length old) (c # cs) = old
      then new @ replace_from old new (drop (length old) (c # cs))
      else c # replace_from old new cs)"
  by pat_completeness auto
termination
  by (relation "measure (\<lambda>(old, new, s). length s)") auto

abbreviation esc :: "string \<Rightarrow> string" where
  "esc \<equiv> replace_from [QUOTE] [QUOTE, QUOTE]"

text \<open>With an empty \<open>old\<close>, Python puts \<open>new\<close> before every character and at the end.\<close>

definition py_replace :: "string \<Rightarrow> string \<Rightarrow> string \<Rightarrow> string" where
  "py_replace old new s =
     (if old = [] then new @ concat (map (\<lambda>c. c # new) s) else replace_from old new s)"

text \<open>\<open>s.strip(chars)\<close>: characters of \<open>chars\<close> are dropped from both ends.\<close>

definition py_lstrip :: "string \<Rightarrow> string \<Rightarrow> string" where
  "py_lstrip chars s = dropWhile (\<lambda>c. c \<in> set chars) s"

definition py_rstrip :: "string \<Rightarrow> string \<Rightarrow> string" where
  "py_rstrip chars s = rev (dropWhile (\<lambda>c. c \<in> set chars) (rev s))"

definition py_strip :: "string \<Rightarrow> string \<Rightarrow> string" where
  "py_strip chars s = py_rstrip chars (py_lstrip chars s)"

text \<open>
  \<open>s.strip()\<close> drops whitespace: the characters below 256 for which \<open>str.isspace\<close>
  holds are 0x09 to 0x0D, 0x1C to 0x1F, 0x20, 0x85 and 0xA0.
\<close>

definition WHITESPACE :: string where
  "WHITESPACE = [CHR 0x09, CHR 0x0A, CHR 0x0B, CHR 0x0C, CHR 0x0D, CHR 0x1C, CHR 0x1D,
                 CHR 0x1E, CHR 0x1F, CHR 0x20, CHR 0x85, CHR 0xA0]"

definition py_strip_ws :: "string \<Rightarrow> string" where
  "py_strip_ws s = py_strip WHITESPACE s"

text \<open>
  \<open>s.lower()\<close>: below 256 the upper-case letters are A to Z, 0xC0 to 0xD6 and 0xD8 to
  0xDE; each maps to the character 32 above it.
\<close>

definition lower_char :: "char \<Rightarrow> char" where
  "lower_char c =
     (let n = (of_char c :: nat)
      in if (65 \<le> n \<and> n \<le> 90) \<or> (192 \<le> n \<and> n \<le> 214) \<or> (216 \<le> n \<and> n \<le> 222)
         then char_of (n + 32) else c)"

definition py_lower :: "string \<Rightarrow> string" where
  "py_lower s = map lower_char s"

text \<open>\<open>s.split(sep)\<close> for a one-character separator: empty pieces are kept.\<close>

fun py_split :: "char \<Rightarrow> string \<Rightarrow> string list" where
  "py_split sep [] = [[]]"
| "py_split sep (c # cs) =
     (if c = sep then [] # py_split sep cs
      else (case py_split sep cs of
              [] \<Rightarrow> [[c]]
            | w # ws \<Rightarrow> (c # w) # ws))"

subsection \<open>The regular expressions of \<open>_cleanName\<close>\<close>

definition is_digit :: "char \<Rightarrow> bool" where
  "is_digit c = (c \<in> set ''0123456789'')"


definition is_role_char :: "char \<Rightarrow> bool" where
  "is_role_char c = (c \<in> set ''abcdefghijklmnopqrstuvwxyzABCDEFGHIJKLMNOPQRSTUVWXYZ; '')"

text \<open>
  \<open>re.match(r'^\[.+\]$', s)\<close>: an opening bracket, at least one character other than
  a newline, and a closing bracket at the end of the string, or just before a newline that
  ends the string.
\<close>

definition bracket_body :: "string \<Rightarrow> bool" where
  "bracket_body r = (2 \<le> length r \<and> last r = CHR '']'' \<and> NEWLINE \<notin> set (butlast r))"

definition match_bracketed :: "string \<Rightarrow> bool" where
  "match_bracketed s =
     (case s of
        [] \<Rightarrow> False
      | c # r \<Rightarrow> c = CHR ''['' \<and>
          (bracket_body r \<or> (r \<noteq> [] \<and> last r = NEWLINE \<and> bracket_body (butlast r))))"

text \<open>
  \<open>re.search(r'([0-9]{4})\-(?:([0-9]{4})|)', s)\<close>: the leftmost place where four digits
  and a hyphen stand.  Group 1 is the four digits; group 2 is the next four characters
  when they are digits, and did not take part (\<open>None\<close>) otherwise.
\<close>

fun life_head :: "string \<Rightarrow> bool" where
  "life_head (a # b # c # d # e # r) =
     (is_digit a \<and> is_digit b \<and> is_digit c \<and> is_digit d \<and> e = CHR ''-'')"
| "life_head s = False"

definition life_at :: "string \<Rightarrow> (string \<times> string option) option" where
  "life_at s =
     (if life_head s
      then Some (take 4 s,
                 (let y = take 4 (drop 5 s)
                  in if length y = 4 \<and> list_all is_digit y then Some y else None))
      else None)"

fun life_search :: "string \<Rightarrow> (string \<times> string option) option" where
  "life_search [] = None"
| "life_search (c # cs) =
     (case life_at (c # cs) of
        Some m \<Rightarrow> Some m
      | None \<Rightarrow> life_search cs)"

text \<open>\<open>lifeGroup.group(0)\<close>: the whole matched text.\<close>

definition life_group0 :: "string \<times> string option \<Rightarrow> string" where
  "life_group0 m = fst m @ ''-'' @ (case snd m of None \<Rightarrow> [] | Some y \<Rightarrow> y)"

text \<open>
  \<open>re.search(r'\[([a-zA-Z; ]+)\]', s)\<close>: the leftmost opening bracket that is followed
  by a non-empty run of letters, semicolons and spaces and then a closing bracket.  The
  result is group 1, the run.
\<close>

definition role_at :: "string \<Rightarrow> string option" where
  "role_at s =
     (case s of
        [] \<Rightarrow> None
      | c # r \<Rightarrow>
          (let run = takeWhile is_role_char r
           in if c = CHR ''['' \<and> run \<noteq> [] \<and> take 1 (dropWhile is_role_char r) = '']''
              then Some run else None))"

fun role_search :: "string \<Rightarrow> string option" where
  "role_search [] = None"
| "role_search (c # cs) =
     (case role_at (c # cs) of
        Some g \<Rightarrow> Some g
      | None \<Rightarrow> role_search cs)"

subsection \<open>The bind parameters of \<open>text()\<close>\<close>

text \<open>
  SQLAlchemy's \<open>text()\<close> reads the statement with the regular expression
  \<open>(?<![:\w\x5c]):(\w+)(?!:)\<close>: a colon that does not follow a colon, a word character
  or a backslash, then word characters, not followed by a colon (the run of word
  characters may be cut short to meet that).  Every match is a bind parameter.  Below 256
  the word characters are the digits, the letters, the underscore and the characters
  0xAA, 0xB2, 0xB3, 0xB5, 0xB9, 0xBA, 0xBC to 0xBE, 0xC0 to 0xD6, 0xD8 to 0xF6 and 0xF8 to
  0xFF.
\<close>

definition is_word_char :: "char \<Rightarrow> bool" where
  "is_word_char c =
     (c \<in> set ''0123456789abcdefghijklmnopqrstuvwxyzABCDEFGHIJKLMNOPQRSTUVWXYZ_'' \<or>
      c \<in> set [CHR 0xAA, CHR 0xB2, CHR 0xB3, CHR 0xB5, CHR 0xB9, CHR 0xBA, CHR 0xBC, CHR 0xBD,
                 CHR 0xBE] \<or>
      (192 \<le> (of_char c :: nat) \<and> (of_char c :: nat) \<noteq> 215 \<and> (of_char c :: nat) \<noteq> 247))"

definition bind_param_at :: "string \<Rightarrow> bool" where
  "bind_param_at s =
     (case s of
        [] \<Rightarrow> False
      | c # r \<Rightarrow>
          c = CHR '':'' \<and> takeWhile is_word_char r \<noteq> [] \<and>
          (2 \<le> length (takeWhile is_word_char r) \<or>
           take 1 (dropWhile is_word_char r) \<noteq> '':''))"

text \<open>\<open>bind_param_search prev s\<close>: a bind parameter stands in \<open>s\<close>, which follows \<open>prev\<close>.\<close>

fun bind_param_search :: "char \<Rightarrow> string \<Rightarrow> bool" where
  "bind_param_search prev [] = False"
| "bind_param_search prev (c # cs) =
     ((bind_param_at (c # cs) \<and> prev \<noteq> CHR '':'' \<and> prev \<noteq> CHR 0x5C \<and> \<not> is_word_char prev) \<or>
      bind_param_search c cs)"

section \<open>Errors and payloads\<close>

datatype error =
    DataError
  | KeyError string
  | AttributeError
  | TypeError
  | MultipleResultsFound
  | StatementError

text \<open>
  The scalar entries of a payload dictionary: a key that is absent maps to \<open>None\<close>, a
  key whose value is Python's \<open>None\<close> maps to \<open>Some None\<close>, a key with a string to
  \<open>Some (Some s)\<close>.
\<close>

type_synonym pydict = "string \<rightharpoonup> string option"

text \<open>A date dictionary, as \<open>_cleanName\<close> builds it: keys and values in order.\<close>

type_synonym date_dict = "(string \<times> string) list"

section \<open>\<open>Agent._cleanName\<close>\<close>

definition STRIP_CHARS :: string where
  "STRIP_CHARS = ''.,;:|[]'' @ [DQUOTE] @ '' ''"

definition life_date :: "string \<Rightarrow> string \<Rightarrow> date_dict" where
  "life_date date_type year =
     [(''display_date'', year), (''date_range'', year), (''date_type'', date_type)]"

text \<open>Lines 227 to 230: escape quotes, take a wholly bracketed name out of its brackets.\<close>

definition unwrapName :: "string \<Rightarrow> string" where
  "unwrapName raw =
     (let tmpName = py_replace [QUOTE] [QUOTE, QUOTE] raw
      in if match_bracketed tmpName then py_strip ''[]'' tmpName else tmpName)"

text \<open>Lines 233 to 256: the lifespan is cut out of the name, its years become dates.\<close>

definition parseLifespan :: "string \<Rightarrow> date_dict list \<Rightarrow> string \<times> date_dict list" where
  "parseLifespan tmpName dates =
     (case life_search tmpName of
        None \<Rightarrow> (tmpName, dates)
      | Some lifeGroup \<Rightarrow>
          (py_replace (life_group0 lifeGroup) [] tmpName,
           (dates @ [life_date ''birth_date'' (fst lifeGroup)]) @
             (case snd lifeGroup of
                None \<Rightarrow> []
              | Some deathDate \<Rightarrow> [life_date ''death_date'' deathDate])))"

text \<open>Lines 259 to 264: a bracketed list of roles is cut out of the name.\<close>

definition parseRoles :: "string \<Rightarrow> string list \<Rightarrow> string \<times> string list" where
  "parseRoles tmpName roles =
     (case role_search tmpName of
        None \<Rightarrow> (tmpName, roles)
      | Some g \<Rightarrow>
          (py_replace (''['' @ g @ '']'') [] tmpName,
           roles @ map (\<lambda>r. py_strip_ws (py_lower r)) (py_split (CHR '';'') g)))"

text \<open>
  \<open>_cleanName(agent, roles, dates)\<close> changes its three arguments in place; the model
  returns them.  \<open>agent['name']\<close> raises \<open>KeyError\<close> when the key is absent, and
  \<open>None.replace\<close> raises \<open>AttributeError\<close>.
\<close>

definition cleanName ::
  "pydict \<Rightarrow> string list \<Rightarrow> date_dict list \<Rightarrow> error + (pydict \<times> string list \<times> date_dict list)" where
  "cleanName agent roles dates =
     (case agent ''name'' of
        None \<Rightarrow> Inl (KeyError ''name'')
      | Some None \<Rightarrow> Inl AttributeError
      | Some (Some raw) \<Rightarrow>
          (let (tmpName, dates') = parseLifespan (unwrapName raw) dates;
               (tmpName', roles') = parseRoles tmpName roles;
               name = py_strip STRIP_CHARS tmpName'
           in Inr (agent(''name'' \<mapsto> Some name, ''sort_name'' \<mapsto> Some name), roles', dates')))"

section \<open>The persisted graph\<close>

text \<open>
  Links, dates, identifiers, measurements, rights statements and items arrive as
  dictionaries and are kept as such: their classes are collaborators outside this model.
\<close>

type_synonym child_dict = "(string \<times> string) list"

text \<open>
  An \<open>Agent\<close> object.  \<open>agent_attrs\<close> holds the attributes that \<open>setattr\<close> and the
  constructor write (\<open>name\<close>, \<open>sort_name\<close>, \<open>lcnaf\<close>, \<open>viaf\<close>, \<open>biography\<close>, ...); an
  attribute that is \<open>None\<close> is absent from the map.  The primary key is kept apart: it
  is \<open>None\<close> until the object has been flushed.
\<close>

record agent =
  agent_id :: "nat option"
  agent_attrs :: "string \<rightharpoonup> string"
  agent_aliases :: "string list"
  agent_links :: "child_dict list"
  agent_dates :: "date_dict list"

text \<open>
  Modelled from the spec: \<open>Work.updateFields(series, seriesPosition)\<close> and
  \<open>Work.importSubjects(session, subjects)\<close> are not under \<open>src/\<close>.  A work keeps the
  calls it has received, in order.
\<close>

datatype work_call =
    UpdateFields "string option" "string option"
  | ImportSubjects "child_dict list"

record work =
  work_id :: nat
  work_calls :: "work_call list"

definition updateFields :: "work \<Rightarrow> string option \<Rightarrow> string option \<Rightarrow> work" where
  "updateFields w series series_position =
     w\<lparr>work_calls := work_calls w @ [UpdateFields series series_position]\<rparr>"

definition importSubjects :: "work \<Rightarrow> child_dict list \<Rightarrow> work" where
  "importSubjects w subjects = w\<lparr>work_calls := work_calls w @ [ImportSubjects subjects]\<rparr>"

text \<open>
  An \<open>Instance\<close> object.  \<open>inst_agent_instances\<close> holds the \<open>AgentInstances\<close> objects
  that the backref of their \<open>instance\<close> relationship collects: the agent and the role.
\<close>

record inst =
  inst_id :: "nat option"
  inst_attrs :: "string \<rightharpoonup> string"
  inst_work :: "work option"
  inst_agent_instances :: "(agent \<times> string) list"
  inst_identifiers :: "child_dict list"
  inst_language :: "child_dict list"
  inst_items :: "child_dict list"
  inst_alt_titles :: "string list"
  inst_measurements :: "child_dict list"
  inst_dates :: "child_dict list"
  inst_links :: "child_dict list"
  inst_rights :: "child_dict list"

text \<open>
  The session: the rows of the tables \<open>agents\<close>, \<open>instances\<close> and \<open>agent_instances\<close>
  (agent id, instance id, role) as a query sees them, and the warnings logged so far.
  The session flushes pending changes before every query, so a change to an object of
  the session is written to its row at once.
\<close>

record session =
  agents :: "agent list"
  instances :: "inst list"
  agent_instances :: "(nat \<times> nat \<times> string) list"
  warnings :: "string list"

definition put_agent :: "session \<Rightarrow> agent \<Rightarrow> session" where
  "put_agent s a =
     (case agent_id a of
        None \<Rightarrow> s
      | Some i \<Rightarrow> s\<lparr>agents := map (\<lambda>x. if agent_id x = Some i then a else x) (agents s)\<rparr>)"

definition put_instance :: "session \<Rightarrow> inst \<Rightarrow> session" where
  "put_instance s inst =
     (case inst_id inst of
        None \<Rightarrow> s
      | Some i \<Rightarrow>
          s\<lparr>instances := map (\<lambda>x. if inst_id x = Some i then inst else x) (instances s)\<rparr>)"

definition warning :: "session \<Rightarrow> string \<Rightarrow> session" where
  "warning s msg = s\<lparr>warnings := warnings s @ [msg]\<rparr>"

text \<open>\<open>Query.one()\<close> and \<open>Query.one_or_none()\<close> on the rows a query selects.\<close>

datatype 'a one_result = NoResultFound | One 'a | MultipleResults

definition one :: "'a list \<Rightarrow> 'a one_result" where
  "one rows = (case rows of [] \<Rightarrow> NoResultFound | [r] \<Rightarrow> One r | _ \<Rightarrow> MultipleResults)"

definition one_or_none :: "'a list \<Rightarrow> error + 'a option" where
  "one_or_none rows =
     (case rows of [] \<Rightarrow> Inr None | [r] \<Rightarrow> Inr (Some r) | _ \<Rightarrow> Inl MultipleResultsFound)"

section \<open>Collaborators\<close>

text \<open>The model class that a collaborator is called for: \<open>Agent\<close> or \<open>Instance\<close>.\<close>

datatype owner_kind = AgentModel | InstanceModel

text \<open>
  The classes \<open>Link\<close>, \<open>DateField\<close>, \<open>Rights\<close>, \<open>Measurement\<close>, \<open>Identifier\<close>,
  \<open>Language\<close>, \<open>Item\<close> and \<open>AltTitle\<close> and the database function \<open>jarowinkler\<close> are
  not under \<open>src/\<close>: they are parameters, with the arguments of their calls.  A result
  that the source only tests against \<open>None\<close> is a \<open>bool\<close> (\<open>True\<close>: a row was found).
  \<open>jarowinkler c n lit\<close> is the score the database computes for the stored name \<open>n\<close> and
  the SQL literal whose text between the quotes is \<open>lit\<close>.
  The constructor of \<open>Agent\<close> and \<open>Instance\<close> is that of \<open>Base\<close>, in
  \<open>model/core.py\<close>: SQLAlchemy's declarative constructor, which raises \<open>TypeError\<close> on
  a keyword that is not an attribute of the class.  The attributes of the two classes
  (their own, and those of \<open>Core\<close> and \<open>Base\<close>) are \<open>Agent_attributes\<close> and
  \<open>Instance_attributes\<close>.
\<close>

record collab =
  Link_updateOrInsert :: "session \<Rightarrow> child_dict \<Rightarrow> owner_kind \<Rightarrow> nat option \<Rightarrow> child_dict option"
  DateField_updateOrInsert :: "session \<Rightarrow> date_dict \<Rightarrow> owner_kind \<Rightarrow> nat option \<Rightarrow> date_dict option"
  Rights_updateOrInsert :: "session \<Rightarrow> child_dict \<Rightarrow> owner_kind \<Rightarrow> nat option \<Rightarrow> child_dict option"
  Measurement_updateOrInsert :: "session \<Rightarrow> child_dict \<Rightarrow> owner_kind \<Rightarrow> nat option \<Rightarrow> string \<times> child_dict"
  Identifier_getByIdentifier :: "owner_kind \<Rightarrow> session \<Rightarrow> child_dict list \<Rightarrow> nat option"
  Identifier_returnOrInsert :: "session \<Rightarrow> child_dict \<Rightarrow> error + (string \<times> child_dict)"
  Identifier_getIdentiferRelationship :: "session \<Rightarrow> child_dict \<Rightarrow> owner_kind \<Rightarrow> nat option \<Rightarrow> bool"
  Language_updateOrInsert :: "session \<Rightarrow> string \<Rightarrow> error + child_dict"
  Language_lookupRelLang :: "session \<Rightarrow> child_dict \<Rightarrow> owner_kind \<Rightarrow> inst \<Rightarrow> bool"
  Item_updateOrInsert :: "session \<Rightarrow> child_dict \<Rightarrow> child_dict \<times> string"
  AltTitle_insertOrSkip :: "session \<Rightarrow> string \<Rightarrow> owner_kind \<Rightarrow> nat option \<Rightarrow> bool"
  jarowinkler :: "string \<Rightarrow> string \<Rightarrow> real"
  Agent_attributes :: "string list"
  Instance_attributes :: "string list"

section \<open>\<open>model/agent.py\<close>\<close>

text \<open>
  An agent payload.  \<open>ap_fields\<close> holds the scalar entries of the dictionary; the four
  entries that \<open>updateOrInsert\<close> pops first are fields of their own, an absent key standing
  as the default of its \<open>pop\<close>.  \<open>None\<close> in \<open>ap_aliases\<close>, \<open>ap_roles\<close> and \<open>ap_dates\<close>
  is Python's \<open>None\<close>.
\<close>

datatype link_arg = LinkDict child_dict | LinkList "child_dict list" | LinkOther

record agent_payload =
  ap_fields :: pydict
  ap_aliases :: "string list option"
  ap_roles :: "string list option"
  ap_link :: link_arg
  ap_dates :: "date_dict list option"

subsection \<open>\<open>Alias.insertOrSkip\<close>\<close>

text \<open>
  The query joins the aliases to the agents and keeps the aliases of the agent
  \<open>recordID\<close> whose text is the escaped alias.  \<open>one()\<close> raises \<open>NoResultFound\<close>, which is
  caught, or \<open>MultipleResultsFound\<close>, which is not; with one row the method falls off its
  end and returns \<open>None\<close>.
\<close>

definition insertOrSkip :: "session \<Rightarrow> string \<Rightarrow> nat option \<Rightarrow> error + string option" where
  "insertOrSkip s alias recordID =
     (let alias' = py_replace [QUOTE] [QUOTE, QUOTE] alias
      in case one (filter (\<lambda>x. x = alias')
                     (concat (map agent_aliases
                        (filter (\<lambda>a. agent_id a \<noteq> None \<and> agent_id a = recordID) (agents s))))) of
           NoResultFound \<Rightarrow> Inr (Some alias')
         | One r \<Rightarrow> Inr None
         | MultipleResults \<Rightarrow> Inl MultipleResultsFound)"

fun insertOrSkip_all :: "session \<Rightarrow> string list \<Rightarrow> nat option \<Rightarrow> error + string option list" where
  "insertOrSkip_all s [] recordID = Inr []"
| "insertOrSkip_all s (a # as) recordID =
     (case insertOrSkip s a recordID of
        Inl e \<Rightarrow> Inl e
      | Inr r \<Rightarrow>
          (case insertOrSkip_all s as recordID of
             Inl e \<Rightarrow> Inl e
           | Inr rs \<Rightarrow> Inr (r # rs)))"

subsection \<open>\<open>Agent.lookupAgent\<close>\<close>

text \<open>
  \<open>cls.viaf == agent['viaf']\<close> compares a nullable column with a value that may be
  \<open>None\<close>; both are \<open>string option\<close> here.
\<close>

definition authority_match :: "string option \<Rightarrow> string option \<Rightarrow> agent \<Rightarrow> bool" where
  "authority_match viaf lcnaf a =
     (agent_attrs a ''viaf'' = viaf \<or> agent_attrs a ''lcnaf'' = lcnaf)"

definition fuzzy_match :: "collab \<Rightarrow> string \<Rightarrow> agent \<Rightarrow> bool" where
  "fuzzy_match c escapedName a =
     (case agent_attrs a ''name'' of
        None \<Rightarrow> False
      | Some n \<Rightarrow> jarowinkler c n escapedName > 95 / 100)"

text \<open>
  Lines 204 to 221: the match on the name.  The statement is
  \<open>jarowinkler(name, 'escapedName') > 0.95\<close>, built by \<open>text()\<close>: its only colons are
  those of the escaped name, which follows a quote.  The query is executed with no
  parameter values, so a bind parameter in the name raises \<open>StatementError\<close>, which
  is not caught.
\<close>

definition lookupAgent_byName :: "collab \<Rightarrow> session \<Rightarrow> pydict \<Rightarrow> error + nat option" where
  "lookupAgent_byName c s agent =
     (case agent ''name'' of
        None \<Rightarrow> Inl (KeyError ''name'')
      | Some None \<Rightarrow> Inl AttributeError
      | Some (Some name) \<Rightarrow>
          (let escapedName = py_replace [QUOTE] [QUOTE, QUOTE] name
           in if bind_param_search QUOTE escapedName then Inl StatementError
              else (case one (filter (fuzzy_match c escapedName) (agents s)) of
                      One a \<Rightarrow> Inr (agent_id a)
                    | MultipleResults \<Rightarrow> Inr None
                    | NoResultFound \<Rightarrow> Inr None)))"

definition lookupAgent :: "collab \<Rightarrow> session \<Rightarrow> pydict \<Rightarrow> error + nat option" where
  "lookupAgent c s agent =
     (case agent ''viaf'' of
        None \<Rightarrow> Inl (KeyError ''viaf'')
      | Some viaf \<Rightarrow>
     (case agent ''lcnaf'' of
        None \<Rightarrow> Inl (KeyError ''lcnaf'')
      | Some lcnaf \<Rightarrow>
     (case (if viaf \<noteq> None \<or> lcnaf \<noteq> None
            then one (filter (authority_match viaf lcnaf) (agents s))
            else NoResultFound) of
        One a \<Rightarrow> Inr (agent_id a)
      | MultipleResults \<Rightarrow> Inl MultipleResultsFound
      | NoResultFound \<Rightarrow> lookupAgent_byName c s agent)))"

subsection \<open>\<open>Agent.update\<close>\<close>

text \<open>
  Lines 115 to 117: every entry of the payload whose value is not \<open>None\<close> and not blank
  is set on the record.  The keys of a dictionary are distinct, so the loop is the
  pointwise override.
\<close>

definition Agent_setFields :: "(string \<rightharpoonup> string) \<Rightarrow> pydict \<Rightarrow> (string \<rightharpoonup> string)" where
  "Agent_setFields attrs agent =
     (\<lambda>field. case agent field of
                 Some (Some v) \<Rightarrow> if py_strip_ws v \<noteq> [] then Some v else attrs field
               | Some None \<Rightarrow> attrs field
               | None \<Rightarrow> attrs field)"

text \<open>Lines 119 to 125: all aliases are looked up first, then the new ones are appended.\<close>

definition Agent_addAliases :: "session \<Rightarrow> agent \<Rightarrow> string list option \<Rightarrow> error + agent" where
  "Agent_addAliases s existing aliases =
     (case aliases of
        None \<Rightarrow> Inr existing
      | Some as \<Rightarrow>
          (case insertOrSkip_all s as (agent_id existing) of
             Inl e \<Rightarrow> Inl e
           | Inr aliasRecs \<Rightarrow>
               Inr (existing\<lparr>agent_aliases :=
                      agent_aliases existing @ List.map_filter (\<lambda>x. x) aliasRecs\<rparr>)))"

fun Agent_addLinks :: "collab \<Rightarrow> session \<Rightarrow> agent \<Rightarrow> child_dict list \<Rightarrow> session \<times> agent" where
  "Agent_addLinks c s existing [] = (s, existing)"
| "Agent_addLinks c s existing (linkItem # link) =
     (case Link_updateOrInsert c s linkItem AgentModel (agent_id existing) of
        None \<Rightarrow> Agent_addLinks c s existing link
      | Some updateLink \<Rightarrow>
          (let existing' = existing\<lparr>agent_links := agent_links existing @ [updateLink]\<rparr>
           in Agent_addLinks c (put_agent s existing') existing' link))"

fun Agent_addDates :: "collab \<Rightarrow> session \<Rightarrow> agent \<Rightarrow> date_dict list \<Rightarrow> session \<times> agent" where
  "Agent_addDates c s existing [] = (s, existing)"
| "Agent_addDates c s existing (date # dates) =
     (case DateField_updateOrInsert c s date AgentModel (agent_id existing) of
        None \<Rightarrow> Agent_addDates c s existing dates
      | Some updateDate \<Rightarrow>
          (let existing' = existing\<lparr>agent_dates := agent_dates existing @ [updateDate]\<rparr>
           in Agent_addDates c (put_agent s existing') existing' dates))"

text \<open>Lines 127 to 135: a dictionary is one link, a list is a list of links.\<close>

definition Agent_addLink :: "collab \<Rightarrow> session \<Rightarrow> agent \<Rightarrow> link_arg \<Rightarrow> session \<times> agent" where
  "Agent_addLink c s existing link =
     (case link of
        LinkDict d \<Rightarrow> Agent_addLinks c s existing [d]
      | LinkList ds \<Rightarrow> Agent_addLinks c s existing ds
      | LinkOther \<Rightarrow> (s, existing))"

definition Agent_update ::
  "collab \<Rightarrow> session \<Rightarrow> agent \<Rightarrow> pydict \<Rightarrow> string list option \<Rightarrow> link_arg \<Rightarrow> date_dict list
     \<Rightarrow> error + (session \<times> agent)" where
  "Agent_update c s existing agent aliases link dates =
     (let existing1 = existing\<lparr>agent_attrs := Agent_setFields (agent_attrs existing) agent\<rparr>
      in case Agent_addAliases (put_agent s existing1) existing1 aliases of
           Inl e \<Rightarrow> Inl e
         | Inr existing2 \<Rightarrow>
             (case Agent_addLink c (put_agent s existing2) existing2 link of
                (s3, existing3) \<Rightarrow> Inr (Agent_addDates c s3 existing3 dates)))"

subsection \<open>\<open>Agent.insert\<close>\<close>

text \<open>
  \<open>Agent(**agentData)\<close> raises \<open>TypeError\<close> when a key of the dictionary is not an
  attribute of the class, and sets every entry otherwise; \<open>Alias(alias=x)\<close>,
  \<open>Link(**linkItem)\<close> and \<open>DateField.insert(date)\<close> build the child records, without a
  query.  The new object is in no session yet.
\<close>

definition Agent_insert ::
  "collab \<Rightarrow> pydict \<Rightarrow> string list option \<Rightarrow> link_arg \<Rightarrow> date_dict list \<Rightarrow> error + agent" where
  "Agent_insert c agentData aliases link dates =
     (let attrs = (\<lambda>field. case agentData field of Some (Some v) \<Rightarrow> Some v | Some None \<Rightarrow> None | None \<Rightarrow> None);
          attrs' = (if attrs ''sort_name'' = None then attrs(''sort_name'' := attrs ''name'') else attrs)
      in if dom agentData \<subseteq> set (Agent_attributes c)
         then Inr \<lparr>agent_id = None,
                   agent_attrs = attrs',
                   agent_aliases = (case aliases of None \<Rightarrow> [] | Some as \<Rightarrow> as),
                   agent_links = (case link of LinkList ds \<Rightarrow> ds | LinkDict d \<Rightarrow> [d] | LinkOther \<Rightarrow> []),
                   agent_dates = dates\<rparr>
         else Inl TypeError)"

subsection \<open>\<open>Agent.updateOrInsert\<close>\<close>

text \<open>
  The payload's \<open>birth_date\<close> and \<open>death_date\<close> are popped and dropped.
  \<open>list(set(...))\<close> keeps one of each role, in an order Python does not fix; the model
  takes the order of \<open>remdups\<close>.  The result is the agent, the roles (a list, never
  \<open>None\<close>) and the session.
\<close>

definition Agent_updateOrInsert ::
  "collab \<Rightarrow> session \<Rightarrow> agent_payload \<Rightarrow> error + ((agent \<times> string list option) \<times> session)" where
  "Agent_updateOrInsert c s p =
     (let aliases = ap_aliases p;
          roles = (case ap_roles p of None \<Rightarrow> [] | Some r \<Rightarrow> r);
          link = ap_link p;
          dates = (case ap_dates p of None \<Rightarrow> [] | Some d \<Rightarrow> d);
          agent = (ap_fields p)(''birth_date'' := None, ''death_date'' := None)
      in case cleanName agent roles dates of
           Inl e \<Rightarrow> Inl e
         | Inr (agent', roles', dates') \<Rightarrow>
             (let roles'' = remdups (map py_lower roles')
              in case agent' ''name'' of
                   None \<Rightarrow> Inl (KeyError ''name'')
                 | Some None \<Rightarrow> Inl AttributeError
                 | Some (Some name) \<Rightarrow>
                     if length (py_strip_ws name) < 1 then Inl DataError
                     else
                       (case lookupAgent c s agent' of
                          Inl e \<Rightarrow> Inl e
                        | Inr (Some existingAgentID) \<Rightarrow>
                            (case find (\<lambda>a. agent_id a = Some existingAgentID) (agents s) of
                               None \<Rightarrow> Inl AttributeError
                             | Some existingAgent \<Rightarrow>
                                 (case Agent_update c s existingAgent agent' aliases link dates' of
                                    Inl e \<Rightarrow> Inl e
                                  | Inr (s', updated) \<Rightarrow> Inr ((updated, Some roles''), s')))
                        | Inr None \<Rightarrow>
                            (case Agent_insert c agent' aliases link dates' of
                               Inl e \<Rightarrow> Inl e
                             | Inr newAgent \<Rightarrow> Inr ((newAgent, Some roles''), s)))))"


section \<open>\<open>model/instance.py\<close>\<close>

subsection \<open>\<open>AgentInstances\<close>\<close>

text \<open>
  \<open>roleExists\<close> filters the table on the agent's id, the instance's id and the role.
  An id that is \<open>None\<close> selects no row.
\<close>

definition roleExists ::
  "session \<Rightarrow> agent \<Rightarrow> string \<Rightarrow> nat option \<Rightarrow> error + (nat \<times> nat \<times> string) option" where
  "roleExists s agentRec role recordID =
     one_or_none
       (filter (\<lambda>row. Some (fst row) = agent_id agentRec \<and> Some (fst (snd row)) = recordID \<and>
                       snd (snd row) = role)
          (agent_instances s))"

text \<open>
  \<open>AgentInstances(agent=agentRec, instance=instance, role=role)\<close>.  The backref puts the
  new object into \<open>instance.agent_instances\<close>.  When the instance belongs to the session
  (it has an id), the object and its agent cascade into the session and are flushed
  before the next query: a new agent receives an id and a row, and the table receives
  the triple.  When the instance is new, nothing reaches the session.
\<close>

definition fresh_agent_id :: "session \<Rightarrow> nat" where
  "fresh_agent_id s = Suc (fold max (List.map_filter agent_id (agents s)) 0)"

definition flush_agent :: "session \<Rightarrow> agent \<Rightarrow> session \<times> agent \<times> nat" where
  "flush_agent s a =
     (case agent_id a of
        Some i \<Rightarrow> (s, a, i)
      | None \<Rightarrow>
          (let i = fresh_agent_id s;
               a' = a\<lparr>agent_id := Some i\<rparr>
           in (s\<lparr>agents := agents s @ [a']\<rparr>, a', i)))"

definition AgentInstances_create :: "session \<Rightarrow> inst \<Rightarrow> agent \<Rightarrow> string \<Rightarrow> session \<times> inst \<times> agent" where
  "AgentInstances_create s instance' agentRec role =
     (case inst_id instance' of
        None \<Rightarrow>
          (s,
           instance'\<lparr>inst_agent_instances := inst_agent_instances instance' @ [(agentRec, role)]\<rparr>,
           agentRec)
      | Some i \<Rightarrow>
          (let (s1, agentRec1, a) = flush_agent s agentRec;
               instance1 = instance'\<lparr>inst_agent_instances :=
                             inst_agent_instances instance' @ [(agentRec1, role)]\<rparr>;
               s2 = s1\<lparr>agent_instances := agent_instances s1 @ [(a, i, role)]\<rparr>
           in (put_instance s2 instance1, instance1, agentRec1)))"

subsection \<open>\<open>Instance._addAgents\<close>\<close>

text \<open>Lines 259 to 265: the loop over the roles of one agent.\<close>

fun addRoles :: "session \<Rightarrow> inst \<Rightarrow> agent \<Rightarrow> string list \<Rightarrow> error + (session \<times> inst)" where
  "addRoles s instance' agentRec [] = Inr (s, instance')"
| "addRoles s instance' agentRec (role # roles) =
     (case roleExists s agentRec role (inst_id instance') of
        Inl e \<Rightarrow> Inl e
      | Inr (Some row) \<Rightarrow> addRoles s instance' agentRec roles
      | Inr None \<Rightarrow>
          (case AgentInstances_create s instance' agentRec role of
             (s', instance'', agentRec') \<Rightarrow> addRoles s' instance'' agentRec' roles))"

text \<open>
  The name in the warning is the payload's name as \<open>_cleanName\<close> left it: a
  \<open>DataError\<close> is raised only after the payload has been cleaned in place.
\<close>

definition cleanedName :: "agent_payload \<Rightarrow> string" where
  "cleanedName p =
     (case cleanName ((ap_fields p)(''birth_date'' := None, ''death_date'' := None))
             (case ap_roles p of None \<Rightarrow> [] | Some r \<Rightarrow> r)
             (case ap_dates p of None \<Rightarrow> [] | Some d \<Rightarrow> d) of
        Inl e \<Rightarrow> []
      | Inr (agent', roles', dates') \<Rightarrow>
          (case agent' ''name'' of Some (Some n) \<Rightarrow> n | Some None \<Rightarrow> [] | None \<Rightarrow> []))"

fun addAgents :: "collab \<Rightarrow> session \<Rightarrow> inst \<Rightarrow> agent_payload list \<Rightarrow> error + (session \<times> inst)" where
  "addAgents c s instance' [] = Inr (s, instance')"
| "addAgents c s instance' (agent # rest) =
     (case Agent_updateOrInsert c s agent of
        Inl e \<Rightarrow>
          if e = DataError
          then addAgents c (warning s (''Unable to read agent '' @ cleanedName agent)) instance' rest
          else Inl e
      | Inr ((agentRec, roles), s1) \<Rightarrow>
          (let roles' = (case roles of None \<Rightarrow> [''author''] | Some r \<Rightarrow> r)
           in case addRoles s1 instance' agentRec roles' of
                Inl e \<Rightarrow> Inl e
              | Inr (s2, instance'') \<Rightarrow> addAgents c s2 instance'' rest))"

subsection \<open>\<open>Instance._addIdentifiers\<close>, \<open>_addLanguages\<close>, \<open>_addItems\<close>, \<open>_addAltTitles\<close>\<close>

fun addIdentifiers :: "collab \<Rightarrow> session \<Rightarrow> inst \<Rightarrow> child_dict list \<Rightarrow> error + (session \<times> inst)" where
  "addIdentifiers c s instance' [] = Inr (s, instance')"
| "addIdentifiers c s instance' (iden # identifiers) =
     (case Identifier_returnOrInsert c s iden of
        Inl e \<Rightarrow>
          if e = DataError
          then addIdentifiers c (warning s ''Received invalid identifier'') instance' identifiers
          else Inl e
      | Inr (status, idenRec) \<Rightarrow>
          (let appended = instance'\<lparr>inst_identifiers := inst_identifiers instance' @ [idenRec]\<rparr>
           in if status = ''new''
              then addIdentifiers c (put_instance s appended) appended identifiers
              else if \<not> Identifier_getIdentiferRelationship c s idenRec InstanceModel (inst_id instance')
              then addIdentifiers c (put_instance s appended) appended identifiers
              else addIdentifiers c s instance' identifiers))"

datatype lang_arg = LangNone | LangStr string | LangList "string list"

fun addLanguages_loop :: "collab \<Rightarrow> session \<Rightarrow> inst \<Rightarrow> string list \<Rightarrow> error + (session \<times> inst)" where
  "addLanguages_loop c s instance' [] = Inr (s, instance')"
| "addLanguages_loop c s instance' (lang # languages) =
     (case Language_updateOrInsert c s lang of
        Inl e \<Rightarrow>
          if e = DataError
          then addLanguages_loop c (warning s (''Unable to parse language '' @ lang)) instance' languages
          else Inl e
      | Inr newLang \<Rightarrow>
          if \<not> Language_lookupRelLang c s newLang InstanceModel instance'
          then (let appended = instance'\<lparr>inst_language := inst_language instance' @ [newLang]\<rparr>
                in addLanguages_loop c (put_instance s appended) appended languages)
          else addLanguages_loop c s instance' languages)"

definition addLanguages :: "collab \<Rightarrow> session \<Rightarrow> inst \<Rightarrow> lang_arg \<Rightarrow> error + (session \<times> inst)" where
  "addLanguages c s instance' languages =
     (case languages of
        LangNone \<Rightarrow> Inr (s, instance')
      | LangStr l \<Rightarrow> addLanguages_loop c s instance' [l]
      | LangList ls \<Rightarrow> addLanguages_loop c s instance' ls)"

fun addItems :: "collab \<Rightarrow> session \<Rightarrow> inst \<Rightarrow> child_dict list \<Rightarrow> session \<times> inst" where
  "addItems c s instance' [] = (s, instance')"
| "addItems c s instance' (item # items) =
     (case Item_updateOrInsert c s item of
        (itemRec, op) \<Rightarrow>
          if op = ''inserted''
          then (let appended = instance'\<lparr>inst_items := inst_items instance' @ [itemRec]\<rparr>
                in addItems c (put_instance s appended) appended items)
          else addItems c s instance' items)"

text \<open>The filter runs over all titles first; the titles it keeps are appended after.\<close>

definition addAltTitles :: "collab \<Rightarrow> session \<Rightarrow> inst \<Rightarrow> string list \<Rightarrow> session \<times> inst" where
  "addAltTitles c s instance' altTitles =
     (let appended = instance'\<lparr>inst_alt_titles := inst_alt_titles instance' @
            filter (\<lambda>x. AltTitle_insertOrSkip c s x InstanceModel (inst_id instance')) altTitles\<rparr>
      in (put_instance s appended, appended))"

subsection \<open>The loops of \<open>Instance.update\<close>, lines 178 to 206\<close>

fun addMeasurements :: "collab \<Rightarrow> session \<Rightarrow> inst \<Rightarrow> child_dict list \<Rightarrow> session \<times> inst" where
  "addMeasurements c s existing [] = (s, existing)"
| "addMeasurements c s existing (measurement # measurements) =
     (case Measurement_updateOrInsert c s measurement InstanceModel (inst_id existing) of
        (op, measurementRec) \<Rightarrow>
          if op = ''insert''
          then (let appended = existing\<lparr>inst_measurements := inst_measurements existing @ [measurementRec]\<rparr>
                in addMeasurements c (put_instance s appended) appended measurements)
          else addMeasurements c s existing measurements)"

fun addDates :: "collab \<Rightarrow> session \<Rightarrow> inst \<Rightarrow> date_dict list \<Rightarrow> session \<times> inst" where
  "addDates c s existing [] = (s, existing)"
| "addDates c s existing (date # dates) =
     (case DateField_updateOrInsert c s date InstanceModel (inst_id existing) of
        None \<Rightarrow> addDates c s existing dates
      | Some updateDate \<Rightarrow>
          (let appended = existing\<lparr>inst_dates := inst_dates existing @ [updateDate]\<rparr>
           in addDates c (put_instance s appended) appended dates))"

fun addLinks :: "collab \<Rightarrow> session \<Rightarrow> inst \<Rightarrow> child_dict list \<Rightarrow> session \<times> inst" where
  "addLinks c s existing [] = (s, existing)"
| "addLinks c s existing (link # links) =
     (case Link_updateOrInsert c s link InstanceModel (inst_id existing) of
        None \<Rightarrow> addLinks c s existing links
      | Some updateLink \<Rightarrow>
          (let appended = existing\<lparr>inst_links := inst_links existing @ [updateLink]\<rparr>
           in addLinks c (put_instance s appended) appended links))"

fun addRights :: "collab \<Rightarrow> session \<Rightarrow> inst \<Rightarrow> child_dict list \<Rightarrow> session \<times> inst" where
  "addRights c s existing [] = (s, existing)"
| "addRights c s existing (rightsStmt # rights) =
     (case Rights_updateOrInsert c s rightsStmt InstanceModel (inst_id existing) of
        None \<Rightarrow> addRights c s existing rights
      | Some updateRights \<Rightarrow>
          (let appended = existing\<lparr>inst_rights := inst_rights existing @ [updateRights]\<rparr>
           in addRights c (put_instance s appended) appended rights))"

subsection \<open>The instance payload\<close>

text \<open>
  \<open>ip_fields\<close> holds the scalar entries of the dictionary.  The child collections of
  \<open>CHILD_FIELDS\<close> and the three entries meant for the work are fields of their own, an
  absent key standing as the default of its \<open>pop\<close>; only for \<open>identifiers\<close>, which
  \<open>updateOrInsert\<close> reads with \<open>instance['identifiers']\<close>, is an absent key \<open>None\<close>.
\<close>

record instance_payload =
  ip_fields :: pydict
  ip_identifiers :: "child_dict list option"
  ip_formats :: "child_dict list"
  ip_agents :: "agent_payload list"
  ip_measurements :: "child_dict list"
  ip_dates :: "date_dict list"
  ip_links :: "child_dict list"
  ip_alt_titles :: "string list"
  ip_rights :: "child_dict list"
  ip_language :: lang_arg
  ip_series :: "string option"
  ip_series_position :: "string option"
  ip_subjects :: "child_dict list"

subsection \<open>\<open>Instance.update\<close>\<close>

text \<open>Lines 164 to 166: every entry whose value is not \<open>None\<close> is set on the record.\<close>

definition Instance_setFields :: "(string \<rightharpoonup> string) \<Rightarrow> pydict \<Rightarrow> (string \<rightharpoonup> string)" where
  "Instance_setFields attrs instance' =
     (\<lambda>field. case instance' field of
                 Some (Some v) \<Rightarrow> Some v
               | Some None \<Rightarrow> attrs field
               | None \<Rightarrow> attrs field)"

text \<open>Lines 154 to 162: the fields meant for the work go to the work, when there is one.\<close>

definition Instance_updateWork :: "inst \<Rightarrow> instance_payload \<Rightarrow> inst" where
  "Instance_updateWork existing p =
     (case inst_work existing of
        None \<Rightarrow> existing
      | Some w \<Rightarrow>
          existing\<lparr>inst_work :=
            Some (importSubjects (updateFields w (ip_series p) (ip_series_position p))
                    (ip_subjects p))\<rparr>)"

definition Instance_update :: "collab \<Rightarrow> session \<Rightarrow> inst \<Rightarrow> instance_payload \<Rightarrow> error + (session \<times> inst)" where
  "Instance_update c s existing p =
     (let existing1 = Instance_updateWork existing p;
          existing2 = existing1\<lparr>inst_attrs := Instance_setFields (inst_attrs existing1) (ip_fields p)\<rparr>;
          s2 = put_instance s existing2
      in case addAgents c s2 existing2 (ip_agents p) of
           Inl e \<Rightarrow> Inl e
         | Inr (s3, existing3) \<Rightarrow>
      (case addIdentifiers c s3 existing3
              (case ip_identifiers p of None \<Rightarrow> [] | Some ids \<Rightarrow> ids) of
           Inl e \<Rightarrow> Inl e
         | Inr (s4, existing4) \<Rightarrow>
      (case addLanguages c s4 existing4 (ip_language p) of
           Inl e \<Rightarrow> Inl e
         | Inr (s5, existing5) \<Rightarrow>
             (let (s6, existing6) = addItems c s5 existing5 (ip_formats p);
                  (s7, existing7) = addAltTitles c s6 existing6 (ip_alt_titles p);
                  (s8, existing8) = addMeasurements c s7 existing7 (ip_measurements p);
                  (s9, existing9) = addDates c s8 existing8 (ip_dates p);
                  (s10, existing10) = addLinks c s9 existing9 (ip_links p)
              in Inr (addRights c s10 existing10 (ip_rights p))))))"

subsection \<open>\<open>Instance.insert\<close>\<close>

text \<open>
  \<open>series\<close>, \<open>series_position\<close> and \<open>subjects\<close> are popped and not used again.
  \<open>Instance(**instanceData)\<close> raises \<open>TypeError\<close> when a key that is left is not an
  attribute of the class.  The new instance has no id and no work;
  \<open>Measurement.insert\<close>, \<open>Link\<close>, \<open>DateField.insert\<close> and \<open>Rights.insert\<close> build the
  child records without a query.
\<close>

definition Instance_insert :: "collab \<Rightarrow> session \<Rightarrow> instance_payload \<Rightarrow> error + (session \<times> inst)" where
  "Instance_insert c s instanceData =
     (let instance0 =
            \<lparr>inst_id = None,
             inst_attrs = (\<lambda>field. case ip_fields instanceData field of
                                      Some (Some v) \<Rightarrow> Some v | Some None \<Rightarrow> None | None \<Rightarrow> None),
             inst_work = None,
             inst_agent_instances = [],
             inst_identifiers = [],
             inst_language = [],
             inst_items = [],
             inst_alt_titles = [],
             inst_measurements = [],
             inst_dates = [],
             inst_links = [],
             inst_rights = []\<rparr>
      in if \<not> dom (ip_fields instanceData) \<subseteq> set (Instance_attributes c) then Inl TypeError
         else
      case addAgents c s instance0 (ip_agents instanceData) of
           Inl e \<Rightarrow> Inl e
         | Inr (s1, instance1) \<Rightarrow>
      (case addIdentifiers c s1 instance1
              (case ip_identifiers instanceData of None \<Rightarrow> [] | Some ids \<Rightarrow> ids) of
           Inl e \<Rightarrow> Inl e
         | Inr (s2, instance2) \<Rightarrow>
             (let (s3, instance3) = addAltTitles c s2 instance2 (ip_alt_titles instanceData);
                  instance4 = instance3\<lparr>inst_measurements := ip_measurements instanceData,
                                        inst_links := ip_links instanceData,
                                        inst_dates := ip_dates instanceData,
                                        inst_rights := ip_rights instanceData\<rparr>
              in case addLanguages c s3 instance4 (ip_language instanceData) of
                   Inl e \<Rightarrow> Inl e
                 | Inr (s5, instance5) \<Rightarrow>
                     Inr (addItems c s5 instance5 (ip_formats instanceData)))))"

subsection \<open>\<open>Instance.lookupInstance\<close> and \<open>Instance.updateOrInsert\<close>\<close>

text \<open>
  \<open>one_or_none()\<close> on the rows whose id is the candidate's; \<open>existingVol[0]\<close> raises
  \<open>TypeError\<close> when there is no such row.
\<close>

definition lookupInstance ::
  "collab \<Rightarrow> session \<Rightarrow> child_dict list \<Rightarrow> string option \<Rightarrow> error + nat option" where
  "lookupInstance c s identifiers volume =
     (case Identifier_getByIdentifier c InstanceModel s identifiers of
        None \<Rightarrow> Inr None
      | Some existingID \<Rightarrow>
          (case volume of
             None \<Rightarrow> Inr (Some existingID)
           | Some v \<Rightarrow>
               (case one_or_none (map (\<lambda>x. inst_attrs x ''volume'')
                                    (filter (\<lambda>x. inst_id x = Some existingID) (instances s))) of
                  Inl e \<Rightarrow> Inl e
                | Inr None \<Rightarrow> Inl TypeError
                | Inr (Some existingVol) \<Rightarrow>
                    if existingVol \<noteq> Some v then Inr None else Inr (Some existingID))))"

definition Instance_updateOrInsert ::
  "collab \<Rightarrow> session \<Rightarrow> instance_payload \<Rightarrow> work option \<Rightarrow> error + ((inst \<times> string) \<times> session)" where
  "Instance_updateOrInsert c s p work =
     (case ip_identifiers p of
        None \<Rightarrow> Inl (KeyError ''identifiers'')
      | Some identifiers \<Rightarrow>
          (case lookupInstance c s identifiers
                  (case ip_fields p ''volume'' of None \<Rightarrow> None | Some v \<Rightarrow> v) of
             Inl e \<Rightarrow> Inl e
           | Inr (Some existingID) \<Rightarrow>
               (case find (\<lambda>x. inst_id x = Some existingID) (instances s) of
                  None \<Rightarrow> Inl AttributeError
                | Some existing \<Rightarrow>
                    (let existing' = (if inst_work existing = None \<and> work \<noteq> None
                                      then existing\<lparr>inst_work := work\<rparr> else existing)
                     in case Instance_update c (put_instance s existing') existing' p of
                          Inl e \<Rightarrow> Inl e
                        | Inr (s', updated) \<Rightarrow> Inr ((updated, ''updated''), s')))
           | Inr None \<Rightarrow>
               (case Instance_insert c s p of
                  Inl e \<Rightarrow> Inl e
                | Inr (s', newInstance) \<Rightarrow> Inr ((newInstance, ''inserted''), s'))))"

section \<open>The updaters\<close>

text \<open>
  Modelled from the spec: \<open>lib/updaters/itemUpdater.py\<close> and \<open>workUpdater.py\<close> are not
  under \<open>src/\<close>; only their tests are.  An updater holds the event's data and its attempt
  counter (0 when the event has none).  \<open>lookupRecord\<close> takes the result of the lookup of
  the target record: a record found is kept; a miss below the retry ceiling republishes
  the same event, with the counter incremented, on the retry stream; a miss at the
  ceiling is fatal and publishes nothing.  (The tests expect \<open>DBError\<close> to be raised on
  every miss; it ends the processing of the event in both states.)
\<close>

definition MAX_RETRIES :: nat where
  "MAX_RETRIES = 3"

record 'd event =
  ev_data :: 'd
  ev_attempts :: nat

datatype 'r updater_state = LOOKED_UP 'r | REQUEUED | FAILED

definition lookupRecord :: "'r option \<Rightarrow> 'd event \<Rightarrow> 'd event list \<Rightarrow> 'r updater_state \<times> 'd event list" where
  "lookupRecord found ev retry_stream =
     (case found of
        Some r \<Rightarrow> (LOOKED_UP r, retry_stream)
      | None \<Rightarrow>
          if ev_attempts ev < MAX_RETRIES
          then (REQUEUED, retry_stream @ [ev\<lparr>ev_attempts := ev_attempts ev + 1\<rparr>])
          else (FAILED, retry_stream))"


section \<open>Example data\<close>

text \<open>
  Collaborators over a database that holds no child record: every child is new.  The
  score is 1 for a stored name that is the literal's text and 0 otherwise.  The
  attributes are those that the two classes declare in \<open>src/\<close>.
\<close>

definition exact_score :: "string \<Rightarrow> string \<Rightarrow> real" where
  "exact_score n lit = (if n = lit then 1 else 0)"

definition fresh_collab :: collab where
  "fresh_collab =
     \<lparr>Link_updateOrInsert = (\<lambda>s link model recordID. Some link),
      DateField_updateOrInsert = (\<lambda>s date model recordID. Some date),
      Rights_updateOrInsert = (\<lambda>s rights model recordID. Some rights),
      Measurement_updateOrInsert = (\<lambda>s measurement model recordID. (''insert'', measurement)),
      Identifier_getByIdentifier = (\<lambda>model s identifiers. None),
      Identifier_returnOrInsert = (\<lambda>s iden. Inr (''new'', iden)),
      Identifier_getIdentiferRelationship = (\<lambda>s idenRec model recordID. False),
      Language_updateOrInsert = (\<lambda>s lang. Inr [(''language'', lang)]),
      Language_lookupRelLang = (\<lambda>s lang model instance'. False),
      Item_updateOrInsert = (\<lambda>s item. (item, ''inserted'')),
      AltTitle_insertOrSkip = (\<lambda>s title model recordID. True),
      jarowinkler = exact_score,
      Agent_attributes = [''id'', ''name'', ''sort_name'', ''lcnaf'', ''viaf'', ''biography'',
                          ''aliases'', ''links''],
      Instance_attributes = [''id'', ''title'', ''sub_title'', ''pub_place'', ''edition'',
                             ''edition_statement'', ''volume'', ''table_of_contents'',
                             ''copyright_date'', ''extent'', ''work_id'', ''work'', ''items'',
                             ''agents'', ''measurements'', ''identifiers'', ''links'',
                             ''alt_titles'']\<rparr>"

definition empty_session :: session where
  "empty_session = \<lparr>agents = [], instances = [], agent_instances = [], warnings = []\<rparr>"

definition empty_agent_payload :: agent_payload where
  "empty_agent_payload =
     \<lparr>ap_fields = Map.empty, ap_aliases = Some [], ap_roles = Some [], ap_link = LinkList [],
      ap_dates = Some []\<rparr>"

definition empty_instance_payload :: instance_payload where
  "empty_instance_payload =
     \<lparr>ip_fields = Map.empty, ip_identifiers = Some [], ip_formats = [], ip_agents = [],
      ip_measurements = [], ip_dates = [], ip_links = [], ip_alt_titles = [], ip_rights = [],
      ip_language = LangList [], ip_series = None, ip_series_position = None, ip_subjects = []\<rparr>"

definition stored_instance :: "nat \<Rightarrow> (string \<rightharpoonup> string) \<Rightarrow> inst" where
  "stored_instance i attrs =
     \<lparr>inst_id = Some i, inst_attrs = attrs, inst_work = None, inst_agent_instances = [],
      inst_identifiers = [], inst_language = [], inst_items = [], inst_alt_titles = [],
      inst_measurements = [], inst_dates = [], inst_links = [], inst_rights = []\<rparr>"

definition stored_agent :: "nat \<Rightarrow> (string \<rightharpoonup> string) \<Rightarrow> agent" where
  "stored_agent i attrs =
     \<lparr>agent_id = Some i, agent_attrs = attrs, agent_aliases = [], agent_links = [],
      agent_dates = []\<rparr>"


text \<open>
  An instance with volume 1 is stored under id 1, and the identifier collaborator names
  it as the candidate.
\<close>

definition issn_collab :: collab where
  "issn_collab = fresh_collab\<lparr>Identifier_getByIdentifier := (\<lambda>model s identifiers. Some 1)\<rparr>"

definition volume_session :: session where
  "volume_session = empty_session\<lparr>instances := [stored_instance 1 [''volume'' \<mapsto> ''1'']]\<rparr>"

text \<open>An agent payload that carries scalar \<open>birth_date\<close> and \<open>death_date\<close> entries.\<close>

definition life_payload :: agent_payload where
  "life_payload = empty_agent_payload\<lparr>ap_fields :=
     [''name'' \<mapsto> Some ''Smith, John'', ''viaf'' \<mapsto> None, ''lcnaf'' \<mapsto> None,
      ''birth_date'' \<mapsto> Some ''1920'', ''death_date'' \<mapsto> Some ''1995'']\<rparr>"

text \<open>
  An agent payload with a name and no role, one whose name is punctuation only, and a
  session that holds one instance, stored under id 1.
\<close>

definition smith_payload :: agent_payload where
  "smith_payload = empty_agent_payload\<lparr>ap_fields :=
     [''name'' \<mapsto> Some ''Smith, John'', ''viaf'' \<mapsto> None, ''lcnaf'' \<mapsto> None]\<rparr>"

definition blank_payload :: agent_payload where
  "blank_payload = empty_agent_payload\<lparr>ap_fields :=
     [''name'' \<mapsto> Some ''.,'', ''viaf'' \<mapsto> None, ''lcnaf'' \<mapsto> None]\<rparr>"

definition one_instance_session :: session where
  "one_instance_session = empty_session\<lparr>instances := [stored_instance 1 Map.empty]\<rparr>"

text \<open>An instance payload whose only entry is an empty title.\<close>

definition blank_title_payload :: instance_payload where
  "blank_title_payload = empty_instance_payload\<lparr>ip_fields := [''title'' \<mapsto> Some '''']\<rparr>"

text \<open>
  One agent is stored, with authority identifiers \<open>v2\<close> and \<open>n2\<close>.  The payload has
  the same name and other identifiers.
\<close>

definition authority_session :: session where
  "authority_session = empty_session\<lparr>agents :=
     [stored_agent 1 [''name'' \<mapsto> ''Smith, John'', ''viaf'' \<mapsto> ''v2'', ''lcnaf'' \<mapsto> ''n2'']]\<rparr>"

definition other_authority_fields :: pydict where
  "other_authority_fields =
     [''name'' \<mapsto> Some ''Smith, John'', ''viaf'' \<mapsto> Some ''v1'', ''lcnaf'' \<mapsto> Some ''n1'']"

text \<open>The scalar entries of the payloads above once \<open>_cleanName\<close> has run.\<close>

definition cleaned_smith :: pydict where
  "cleaned_smith =
     [''viaf'' \<mapsto> None, ''lcnaf'' \<mapsto> None, ''name'' \<mapsto> Some ''Smith, John'',
      ''sort_name'' \<mapsto> Some ''Smith, John'']"

text \<open>The agent payload of John Smith with the role \<open>author\<close>.\<close>

definition author_payload :: agent_payload where
  "author_payload = smith_payload\<lparr>ap_roles := Some [''author'']\<rparr>"

section \<open>Predicates of the properties\<close>

text \<open>The payload has a name, and what \<open>_cleanName\<close> leaves of it is empty or blank.\<close>

definition blankName :: "agent_payload \<Rightarrow> bool" where
  "blankName p =
     (case ap_fields p ''name'' of
        Some (Some raw) \<Rightarrow> py_strip_ws (cleanedName p) = []
      | Some None \<Rightarrow> False
      | None \<Rightarrow> False)"



section \<open>Properties\<close>

subsection \<open>Name cleaning\<close>


lemma not_digit_simps [simp]: "\<not> is_digit (CHR '' '')" "\<not> is_digit (CHR ''['')" "\<not> is_digit (CHR '']'')"
  "\<not> is_digit (CHR ''-'')" "\<not> is_digit QUOTE"
  by (simp_all add: is_digit_def QUOTE_def)







lemma esc_Cons: "esc (c # cs) = (if c = QUOTE then QUOTE # QUOTE # esc cs else c # esc cs)"
  by simp




















lemma quote_neq [simp]: "QUOTE \<noteq> CHR '' ''" "QUOTE \<noteq> CHR ''[''" "QUOTE \<noteq> CHR '']''" "QUOTE \<noteq> CHR ''-''"
  "CHR '' '' \<noteq> QUOTE" "CHR ''['' \<noteq> QUOTE" "CHR '']'' \<noteq> QUOTE" "CHR ''-'' \<noteq> QUOTE"
  by (simp_all add: QUOTE_def)





subsection \<open>Bounded retry\<close>

text \<open>
  C5.  When the lookup of the target record returns none: an event whose attempt counter
  is below the retry ceiling of 3 is republished to the retry stream with the counter
  incremented by one (state \<open>REQUEUED\<close>); an event whose counter is 3 fails (state
  \<open>FAILED\<close>) and nothing is published.
\<close>

theorem lookupRecord_retry:
  "(ev_attempts ev < 3 \<longrightarrow>
      lookupRecord None ev retry_stream =
        (REQUEUED, retry_stream @ [ev\<lparr>ev_attempts := ev_attempts ev + 1\<rparr>])) \<and>
   (ev_attempts ev = 3 \<longrightarrow> lookupRecord None ev retry_stream = (FAILED, retry_stream))"
  by (simp add: lookupRecord_def MAX_RETRIES_def)

theorem lookupRecord_retry_witness:
  "lookupRecord (None :: unit option)
      \<lparr>ev_data = (Map.empty :: string \<rightharpoonup> string), ev_attempts = 0\<rparr> [] =
     (REQUEUED, [\<lparr>ev_data = Map.empty, ev_attempts = 1\<rparr>]) \<and>
   lookupRecord (None :: unit option)
      \<lparr>ev_data = (Map.empty :: string \<rightharpoonup> string), ev_attempts = 3\<rparr> [] =
     (FAILED, [])"
  using lookupRecord_retry [of "\<lparr>ev_data = Map.empty, ev_attempts = 0\<rparr>" "[]"]
        lookupRecord_retry [of "\<lparr>ev_data = Map.empty, ev_attempts = 3\<rparr>" "[]"]
  by simp

subsection \<open>Instance lookup\<close>

text \<open>
  C8.  When the identifier collaborator returns a candidate \<open>i\<close>: with no incoming
  volume the candidate is returned; with an incoming volume \<open>v\<close>, and the candidate stored
  as \<open>row\<close>, the candidate is returned when the stored volume is \<open>v\<close> and none is returned
  when it differs.
\<close>

theorem lookupInstance_volume:
  assumes "Identifier_getByIdentifier c InstanceModel s identifiers = Some i"
  shows "lookupInstance c s identifiers None = Inr (Some i) \<and>
         (filter (\<lambda>x. inst_id x = Some i) (instances s) = [row] \<longrightarrow>
            lookupInstance c s identifiers (Some v) =
              Inr (if inst_attrs row ''volume'' = Some v then Some i else None))"
  using assms by (simp add: lookupInstance_def one_or_none_def)

theorem lookupInstance_volume_witness:
  "Identifier_getByIdentifier issn_collab InstanceModel volume_session [] = Some 1 \<and>
   filter (\<lambda>x. inst_id x = Some 1) (instances volume_session) =
     [stored_instance 1 [''volume'' \<mapsto> ''1'']] \<and>
   lookupInstance issn_collab volume_session [] None = Inr (Some 1) \<and>
   lookupInstance issn_collab volume_session [] (Some ''2'') = Inr None \<and>
   lookupInstance issn_collab volume_session [] (Some ''1'') = Inr (Some 1)"
proof -
  have h: "Identifier_getByIdentifier issn_collab InstanceModel volume_session [] = Some 1"
    by (simp add: issn_collab_def)
  have r: "filter (\<lambda>x. inst_id x = Some 1) (instances volume_session) =
           [stored_instance 1 [''volume'' \<mapsto> ''1'']]"
    by (simp add: volume_session_def empty_session_def stored_instance_def)
  show ?thesis
    using lookupInstance_volume [OF h, of "stored_instance 1 [''volume'' \<mapsto> ''1'']" "''2''"]
          lookupInstance_volume [OF h, of "stored_instance 1 [''volume'' \<mapsto> ''1'']" "''1''"] h r
    by (simp add: stored_instance_def)
qed

subsection \<open>Scalar fields of an agent\<close>

lemma Agent_setFields_present:
  "agent field = Some (Some v) \<Longrightarrow>
   Agent_setFields attrs agent field = (if py_strip_ws v \<noteq> [] then Some v else attrs field)"
  by (simp add: Agent_setFields_def)

lemma Agent_setFields_absent:
  "agent field = None \<or> agent field = Some None \<Longrightarrow> Agent_setFields attrs agent field = attrs field"
  by (auto simp: Agent_setFields_def)

lemma Instance_setFields_present:
  "p field = Some (Some v) \<Longrightarrow> Instance_setFields attrs p field = Some v"
  by (simp add: Instance_setFields_def)

lemma Agent_addLinks_frame:
  "Agent_addLinks c s existing links = (s', existing') \<Longrightarrow>
   agent_id existing' = agent_id existing \<and> agent_attrs existing' = agent_attrs existing \<and>
   agent_aliases existing' = agent_aliases existing \<and> agent_dates existing' = agent_dates existing"
  by (induction links arbitrary: s existing) (auto simp: Let_def split: option.splits)

lemma Agent_addDates_frame:
  "Agent_addDates c s existing dates = (s', existing') \<Longrightarrow>
   agent_id existing' = agent_id existing \<and> agent_attrs existing' = agent_attrs existing \<and>
   agent_aliases existing' = agent_aliases existing \<and> agent_links existing' = agent_links existing"
  by (induction dates arbitrary: s existing) (auto simp: Let_def split: option.splits)

lemma Agent_addAliases_frame:
  "Agent_addAliases s existing aliases = Inr existing' \<Longrightarrow>
   agent_id existing' = agent_id existing \<and> agent_attrs existing' = agent_attrs existing \<and>
   agent_links existing' = agent_links existing \<and> agent_dates existing' = agent_dates existing"
  by (auto simp: Agent_addAliases_def split: option.splits sum.splits)

lemma Agent_addLink_frame:
  assumes "Agent_addLink c s existing link = (s', existing')"
  shows "agent_id existing' = agent_id existing \<and> agent_attrs existing' = agent_attrs existing \<and>
   agent_aliases existing' = agent_aliases existing \<and> agent_dates existing' = agent_dates existing"
proof (cases link)
  case (LinkDict d)
  then have "Agent_addLinks c s existing [d] = (s', existing')"
    using assms by (simp add: Agent_addLink_def del: Agent_addLinks.simps)
  then show ?thesis by (rule Agent_addLinks_frame)
next
  case (LinkList ds)
  then have "Agent_addLinks c s existing ds = (s', existing')"
    using assms by (simp add: Agent_addLink_def del: Agent_addLinks.simps)
  then show ?thesis by (rule Agent_addLinks_frame)
next
  case LinkOther
  then show ?thesis using assms by (simp add: Agent_addLink_def)
qed

lemma Agent_update_attrs:
  assumes "Agent_update c s existing agent aliases link dates = Inr (s', updated)"
  shows "agent_id updated = agent_id existing \<and>
         agent_attrs updated = Agent_setFields (agent_attrs existing) agent"
proof -
  let ?e1 = "existing\<lparr>agent_attrs := Agent_setFields (agent_attrs existing) agent\<rparr>"
  from assms obtain e2 s3 e3 where
    a: "Agent_addAliases (put_agent s ?e1) ?e1 aliases = Inr e2" and
    l: "Agent_addLink c (put_agent s e2) e2 link = (s3, e3)" and
    d: "Agent_addDates c s3 e3 dates = (s', updated)"
    by (auto simp: Agent_update_def Let_def split: sum.splits prod.splits)
  show ?thesis
    using Agent_addAliases_frame [OF a] Agent_addLink_frame [OF l] Agent_addDates_frame [OF d]
    by simp
qed

lemma cleanName_Inr:
  "cleanName agent roles dates = Inr (agent', roles', dates') \<Longrightarrow>
   \<exists>n. agent' = agent(''name'' \<mapsto> Some n, ''sort_name'' \<mapsto> Some n)"
  by (auto simp: cleanName_def Let_def split: option.splits prod.splits)

lemma cleanName_Inl:
  "cleanName agent roles dates = Inl e \<Longrightarrow> e = KeyError ''name'' \<or> e = AttributeError"
  by (auto simp: cleanName_def Let_def split: option.splits prod.splits)

lemma cleanName_defined:
  "(\<exists>r. cleanName agent roles dates = Inr r) = (\<exists>raw. agent ''name'' = Some (Some raw))"
  by (auto simp: cleanName_def Let_def split: option.splits prod.splits)

lemma find_Some_set: "find P xs = Some x \<Longrightarrow> x \<in> set xs \<and> P x"
  by (induction xs) (auto split: if_splits)

text \<open>What \<open>updateOrInsert\<close> does once the name has been cleaned.\<close>

lemma Agent_updateOrInsert_cleaned:
  assumes "cleanName ((ap_fields p)(''birth_date'' := None, ''death_date'' := None))
             (case ap_roles p of None \<Rightarrow> [] | Some r \<Rightarrow> r)
             (case ap_dates p of None \<Rightarrow> [] | Some d \<Rightarrow> d) = Inr (agent', roles', dates')"
      and "agent' ''name'' = Some (Some name)"
  shows "Agent_updateOrInsert c s p =
           (if length (py_strip_ws name) < 1 then Inl DataError
            else (case lookupAgent c s agent' of
                    Inl e \<Rightarrow> Inl e
                  | Inr None \<Rightarrow>
                      (case Agent_insert c agent' (ap_aliases p) (ap_link p) dates' of
                         Inl e \<Rightarrow> Inl e
                       | Inr newAgent \<Rightarrow>
                           Inr ((newAgent, Some (remdups (map py_lower roles'))), s))
                  | Inr (Some i) \<Rightarrow>
                      (case find (\<lambda>a. agent_id a = Some i) (agents s) of
                         None \<Rightarrow> Inl AttributeError
                       | Some existing \<Rightarrow>
                           (case Agent_update c s existing agent' (ap_aliases p) (ap_link p) dates' of
                              Inl e \<Rightarrow> Inl e
                            | Inr (s', updated) \<Rightarrow>
                                Inr ((updated, Some (remdups (map py_lower roles'))), s')))))"
  using assms by (simp add: Agent_updateOrInsert_def Let_def split: sum.splits option.splits)

lemma Agent_updateOrInsert_uncleaned:
  assumes "cleanName ((ap_fields p)(''birth_date'' := None, ''death_date'' := None))
             (case ap_roles p of None \<Rightarrow> [] | Some r \<Rightarrow> r)
             (case ap_dates p of None \<Rightarrow> [] | Some d \<Rightarrow> d) = Inl e"
  shows "Agent_updateOrInsert c s p = Inl e"
  using assms by (simp add: Agent_updateOrInsert_def Let_def)

text \<open>
  C10.  \<open>Agent.updateOrInsert\<close> drops the payload's top-level \<open>birth_date\<close> and
  \<open>death_date\<close> before it matches and merges: its result does not depend on the values
  supplied under these keys, and on the agent it returns these two attributes are what
  they were on the stored agent that was updated, or absent on a newly inserted agent.
\<close>

theorem updateOrInsert_drops_life_dates:
  assumes "Agent_updateOrInsert c s p = Inr ((agentRec, roles), s')"
      and "field = ''birth_date'' \<or> field = ''death_date''"
  shows "Agent_updateOrInsert c s
           (p\<lparr>ap_fields := (ap_fields p)(''birth_date'' := b, ''death_date'' := d)\<rparr>) =
           Agent_updateOrInsert c s p \<and>
         (if agent_id agentRec = None then agent_attrs agentRec field = None
          else \<exists>existing. existing \<in> set (agents s) \<and> agent_id existing = agent_id agentRec \<and>
                 agent_attrs agentRec field = agent_attrs existing field)"
proof -
  have indep: "Agent_updateOrInsert c s
                 (p\<lparr>ap_fields := (ap_fields p)(''birth_date'' := b, ''death_date'' := d)\<rparr>) =
               Agent_updateOrInsert c s p"
    by (simp add: Agent_updateOrInsert_def)
  let ?agent = "(ap_fields p)(''birth_date'' := None, ''death_date'' := None)"
  let ?cn = "cleanName ?agent (case ap_roles p of None \<Rightarrow> [] | Some r \<Rightarrow> r)
               (case ap_dates p of None \<Rightarrow> [] | Some d \<Rightarrow> d)"
  obtain agent' roles' dates' where cn: "?cn = Inr (agent', roles', dates')"
  proof (cases ?cn)
    case (Inl e)
    then show ?thesis using Agent_updateOrInsert_uncleaned [of p e c s] assms(1) by simp
  next
    case (Inr r)
    then show ?thesis using that by (cases r) auto
  qed
  obtain n where a': "agent' = ?agent(''name'' \<mapsto> Some n, ''sort_name'' \<mapsto> Some n)"
    using cleanName_Inr [OF cn] by blast
  have nm: "agent' ''name'' = Some (Some n)" by (simp add: a')
  have none: "agent' field = None"
    using assms(2) by (auto simp: a')
  note u = Agent_updateOrInsert_cleaned [OF cn nm, of c s]
  have "if agent_id agentRec = None then agent_attrs agentRec field = None
        else \<exists>existing. existing \<in> set (agents s) \<and> agent_id existing = agent_id agentRec \<and>
               agent_attrs agentRec field = agent_attrs existing field"
  proof (cases "lookupAgent c s agent'")
    case (Inl e)
    then show ?thesis using u assms(1) by (simp split: if_splits)
  next
    case (Inr r)
    show ?thesis
    proof (cases r)
      case None
      then have "Agent_insert c agent' (ap_aliases p) (ap_link p) dates' = Inr agentRec"
        using u Inr assms(1) by (simp split: if_splits sum.splits)
      then show ?thesis
        using none assms(2) by (auto simp: Agent_insert_def Let_def split: if_splits)
    next
      case (Some i)
      then obtain existing where
        f: "find (\<lambda>a. agent_id a = Some i) (agents s) = Some existing" and
        up: "Agent_update c s existing agent' (ap_aliases p) (ap_link p) dates' = Inr (s', agentRec)"
        using u Inr assms(1) by (auto split: if_splits option.splits sum.splits)
      have e: "existing \<in> set (agents s) \<and> agent_id existing = Some i"
        using find_Some_set [OF f] by simp
      have "agent_id agentRec = agent_id existing \<and>
            agent_attrs agentRec field = agent_attrs existing field"
        using Agent_update_attrs [OF up] none by (simp add: Agent_setFields_def)
      then show ?thesis using e by auto
    qed
  qed
  then show ?thesis using indep by simp
qed

lemma esc_Smith: "py_replace [QUOTE] [QUOTE, QUOTE] ''Smith, John'' = ''Smith, John''"
  by (simp add: py_replace_def QUOTE_def)

lemma bind_Smith: "\<not> bind_param_search QUOTE ''Smith, John''"
  by (simp add: QUOTE_def bind_param_at_def)

lemma strip_ws_Smith: "py_strip_ws ''Smith, John'' = ''Smith, John''"
  by (simp add: py_strip_ws_def py_strip_def py_lstrip_def py_rstrip_def WHITESPACE_def)

lemma cleanName_Smith:
  "cleanName (f(''name'' \<mapsto> Some ''Smith, John'')) roles dates =
   Inr (f(''name'' \<mapsto> Some ''Smith, John'', ''sort_name'' \<mapsto> Some ''Smith, John''), roles, dates)"
  by (simp add: cleanName_def unwrapName_def py_replace_def QUOTE_def match_bracketed_def
      parseLifespan_def life_at_def parseRoles_def role_at_def py_strip_def py_lstrip_def
      py_rstrip_def STRIP_CHARS_def DQUOTE_def Let_def)

lemma dom_cleaned_smith: "dom cleaned_smith \<subseteq> set (Agent_attributes fresh_collab)"
  by (simp add: cleaned_smith_def fresh_collab_def)

lemma lookupAgent_byName_query:
  assumes "agent ''name'' = Some (Some name)"
      and "py_replace [QUOTE] [QUOTE, QUOTE] name = escapedName"
      and "\<not> bind_param_search QUOTE escapedName"
  shows "lookupAgent_byName c s agent =
           (case one (filter (fuzzy_match c escapedName) (agents s)) of
              One a \<Rightarrow> Inr (agent_id a)
            | MultipleResults \<Rightarrow> Inr None
            | NoResultFound \<Rightarrow> Inr None)"
  using assms by (simp add: lookupAgent_byName_def Let_def del: bind_param_search.simps)

lemma lookupAgent_no_authority:
  assumes "agent ''viaf'' = Some None" and "agent ''lcnaf'' = Some None"
  shows "lookupAgent c s agent = lookupAgent_byName c s agent"
  using assms by (simp add: lookupAgent_def)

lemma lookupAgent_cleaned_smith:
  assumes "agents s = []"
  shows "lookupAgent fresh_collab s cleaned_smith = Inr None"
proof -
  have "lookupAgent fresh_collab s cleaned_smith = lookupAgent_byName fresh_collab s cleaned_smith"
    by (rule lookupAgent_no_authority) (simp_all add: cleaned_smith_def)
  also have "\<dots> = Inr None"
    using lookupAgent_byName_query [of cleaned_smith "''Smith, John''" "''Smith, John''" fresh_collab s]
      esc_Smith bind_Smith assms
    by (simp add: cleaned_smith_def one_def del: bind_param_search.simps)
  finally show ?thesis .
qed

lemma Agent_insert_cleaned_smith:
  "\<exists>newAgent. Agent_insert fresh_collab cleaned_smith aliases link dates = Inr newAgent \<and>
     agent_id newAgent = None \<and> agent_attrs newAgent ''name'' = Some ''Smith, John'' \<and>
     agent_aliases newAgent = (case aliases of None \<Rightarrow> [] | Some as \<Rightarrow> as)"
  using dom_cleaned_smith by (simp add: Agent_insert_def Let_def) (simp add: cleaned_smith_def)

theorem updateOrInsert_drops_life_dates_witness:
  "\<exists>agentRec roles s'.
     Agent_updateOrInsert fresh_collab empty_session life_payload = Inr ((agentRec, roles), s') \<and>
     agent_attrs agentRec ''name'' = Some ''Smith, John'' \<and>
     agent_attrs agentRec ''birth_date'' = None \<and> agent_attrs agentRec ''death_date'' = None"
proof -
  have f: "(ap_fields life_payload)(''birth_date'' := None, ''death_date'' := None) =
           [''viaf'' \<mapsto> None, ''lcnaf'' \<mapsto> None, ''name'' \<mapsto> Some ''Smith, John'']"
    by (auto simp: life_payload_def empty_agent_payload_def)
  have cn: "cleanName ((ap_fields life_payload)(''birth_date'' := None, ''death_date'' := None))
              (case ap_roles life_payload of None \<Rightarrow> [] | Some r \<Rightarrow> r)
              (case ap_dates life_payload of None \<Rightarrow> [] | Some d \<Rightarrow> d) =
            Inr (cleaned_smith, [], [])"
    unfolding f
    by (simp add: cleanName_Smith cleaned_smith_def life_payload_def empty_agent_payload_def)
  have nm: "cleaned_smith ''name'' = Some (Some ''Smith, John'')"
    by (simp add: cleaned_smith_def)
  obtain newAgent where
    ins: "Agent_insert fresh_collab cleaned_smith (ap_aliases life_payload) (ap_link life_payload) [] =
            Inr newAgent"
    and i: "agent_id newAgent = None" and n: "agent_attrs newAgent ''name'' = Some ''Smith, John''"
    using Agent_insert_cleaned_smith by blast
  have r: "Agent_updateOrInsert fresh_collab empty_session life_payload =
             Inr ((newAgent, Some []), empty_session)"
    using Agent_updateOrInsert_cleaned [OF cn nm, of fresh_collab empty_session]
    by (simp add: strip_ws_Smith lookupAgent_cleaned_smith empty_session_def ins)
  have "agent_attrs newAgent ''birth_date'' = None"
    using updateOrInsert_drops_life_dates [OF r, of "''birth_date''"] i by simp
  moreover have "agent_attrs newAgent ''death_date'' = None"
    using updateOrInsert_drops_life_dates [OF r, of "''death_date''"] i by simp
  ultimately show ?thesis using r n by blast
qed

subsection \<open>Validation errors\<close>

lemma lookupAgent_error:
  "lookupAgent c s agent = Inl e \<Longrightarrow> e \<noteq> DataError"
  by (auto simp: lookupAgent_def lookupAgent_byName_def Let_def simp del: bind_param_search.simps
      split: option.splits one_result.splits if_splits)

lemma insertOrSkip_error: "insertOrSkip s alias recordID = Inl e \<Longrightarrow> e = MultipleResultsFound"
  by (auto simp: insertOrSkip_def Let_def split: one_result.splits)

lemma insertOrSkip_all_error:
  "insertOrSkip_all s aliases recordID = Inl e \<Longrightarrow> e = MultipleResultsFound"
  by (induction aliases arbitrary: e) (auto split: sum.splits dest: insertOrSkip_error)

lemma Agent_update_error:
  "Agent_update c s existing agent aliases link dates = Inl e \<Longrightarrow> e = MultipleResultsFound"
  by (auto simp: Agent_update_def Agent_addAliases_def Let_def
      split: sum.splits option.splits prod.splits dest: insertOrSkip_all_error)

lemma Agent_insert_error:
  "Agent_insert c agentData aliases link dates = Inl e \<Longrightarrow> e = TypeError"
  by (auto simp: Agent_insert_def Let_def split: if_splits)

lemma cleanedName_eq:
  assumes "cleanName ((ap_fields p)(''birth_date'' := None, ''death_date'' := None))
             (case ap_roles p of None \<Rightarrow> [] | Some r \<Rightarrow> r)
             (case ap_dates p of None \<Rightarrow> [] | Some d \<Rightarrow> d) = Inr (agent', roles', dates')"
      and "agent' ''name'' = Some (Some name)"
  shows "cleanedName p = name"
  using assms by (simp add: cleanedName_def)

lemma updateOrInsert_DataError_iff:
  "(Agent_updateOrInsert c s p = Inl DataError) =
   ((\<exists>raw. ap_fields p ''name'' = Some (Some raw)) \<and> py_strip_ws (cleanedName p) = [])"
proof -
  let ?agent = "(ap_fields p)(''birth_date'' := None, ''death_date'' := None)"
  let ?cn = "cleanName ?agent (case ap_roles p of None \<Rightarrow> [] | Some r \<Rightarrow> r)
               (case ap_dates p of None \<Rightarrow> [] | Some d \<Rightarrow> d)"
  have nm: "?agent ''name'' = ap_fields p ''name''" by simp
  show ?thesis
  proof (cases ?cn)
    case (Inl e)
    have ne: "e \<noteq> DataError" using cleanName_Inl [OF Inl] by auto
    have "\<not> (\<exists>raw. ap_fields p ''name'' = Some (Some raw))"
      using cleanName_defined [of ?agent] Inl nm by (metis sum.distinct(1))
    then show ?thesis
      using Agent_updateOrInsert_uncleaned [OF Inl, of c s] ne by auto
  next
    case (Inr r)
    obtain agent' roles' dates' where r: "r = (agent', roles', dates')" by (cases r) auto
    have cn: "?cn = Inr (agent', roles', dates')" using Inr r by simp
    obtain n where a': "agent' = ?agent(''name'' \<mapsto> Some n, ''sort_name'' \<mapsto> Some n)"
      using cleanName_Inr [OF cn] by blast
    have an: "agent' ''name'' = Some (Some n)" by (simp add: a')
    have raw: "\<exists>raw. ap_fields p ''name'' = Some (Some raw)"
      using cleanName_defined [of ?agent] cn nm by metis
    have cl: "cleanedName p = n" using cleanedName_eq [OF cn an] .
    note u = Agent_updateOrInsert_cleaned [OF cn an, of c s]
    show ?thesis
    proof (cases "py_strip_ws n = []")
      case True
      then show ?thesis using u raw cl by simp
    next
      case False
      have "Agent_updateOrInsert c s p \<noteq> Inl DataError"
      proof
        assume d: "Agent_updateOrInsert c s p = Inl DataError"
        show False
        proof (cases "lookupAgent c s agent'")
          case (Inl e)
          then show ?thesis using u d False lookupAgent_error [OF Inl] by simp
        next
          case (Inr x)
          show ?thesis
          proof (cases x)
            case None
            show ?thesis
            proof (cases "Agent_insert c agent' (ap_aliases p) (ap_link p) dates'")
              case (Inl e)
              then show ?thesis
                using u d False \<open>lookupAgent c s agent' = Inr x\<close> None Agent_insert_error [OF Inl]
                by simp
            next
              case (Inr newAgent)
              then show ?thesis
                using u d False \<open>lookupAgent c s agent' = Inr x\<close> None by simp
            qed
          next
            case (Some i)
            show ?thesis
            proof (cases "find (\<lambda>a. agent_id a = Some i) (agents s)")
              case None
              then show ?thesis using u d False Inr Some by simp
            next
              case (Some existing)
              show ?thesis
              proof (cases "Agent_update c s existing agent' (ap_aliases p) (ap_link p) dates'")
                case (Inl e)
                then show ?thesis
                  using u d False Inr \<open>x = Some i\<close> Some Agent_update_error [OF Inl] by simp
              next
                case (Inr y)
                then show ?thesis
                  using u d False \<open>lookupAgent c s agent' = Inr x\<close> \<open>x = Some i\<close> Some
                  by (cases y) simp
              qed
            qed
          qed
        qed
      qed
      then show ?thesis using False cl by simp
    qed
  qed
qed

lemma blankName_iff:
  "blankName p =
   ((\<exists>raw. ap_fields p ''name'' = Some (Some raw)) \<and> py_strip_ws (cleanedName p) = [])"
  by (auto simp: blankName_def split: option.splits)

text \<open>Nothing but the \<open>except DataError\<close> branch of \<open>_addAgents\<close> writes to the log.\<close>

lemma put_agent_warnings [simp]: "warnings (put_agent s a) = warnings s"
  by (simp add: put_agent_def split: option.splits)

lemma put_instance_warnings [simp]: "warnings (put_instance s i) = warnings s"
  by (simp add: put_instance_def split: option.splits)

lemma Agent_addLinks_warnings:
  "Agent_addLinks c s existing links = (s', existing') \<Longrightarrow> warnings s' = warnings s"
proof (induction links arbitrary: s existing)
  case Nil
  then show ?case by simp
next
  case (Cons l links)
  show ?case
  proof (cases "Link_updateOrInsert c s l AgentModel (agent_id existing)")
    case None
    then have "Agent_addLinks c s existing links = (s', existing')"
      using Cons.prems by simp
    then show ?thesis by (rule Cons.IH)
  next
    case (Some u)
    let ?e = "existing\<lparr>agent_links := agent_links existing @ [u]\<rparr>"
    have "Agent_addLinks c (put_agent s ?e) ?e links = (s', existing')"
      using Cons.prems Some by (simp add: Let_def)
    from Cons.IH [OF this] show ?thesis by simp
  qed
qed

lemma Agent_addDates_warnings:
  "Agent_addDates c s existing dates = (s', existing') \<Longrightarrow> warnings s' = warnings s"
proof (induction dates arbitrary: s existing)
  case Nil
  then show ?case by simp
next
  case (Cons d dates)
  show ?case
  proof (cases "DateField_updateOrInsert c s d AgentModel (agent_id existing)")
    case None
    then have "Agent_addDates c s existing dates = (s', existing')"
      using Cons.prems by simp
    then show ?thesis by (rule Cons.IH)
  next
    case (Some u)
    let ?e = "existing\<lparr>agent_dates := agent_dates existing @ [u]\<rparr>"
    have "Agent_addDates c (put_agent s ?e) ?e dates = (s', existing')"
      using Cons.prems Some by (simp add: Let_def)
    from Cons.IH [OF this] show ?thesis by simp
  qed
qed

lemma Agent_addLink_warnings:
  assumes "Agent_addLink c s existing link = (s', existing')"
  shows "warnings s' = warnings s"
proof (cases link)
  case (LinkDict d)
  then have "Agent_addLinks c s existing [d] = (s', existing')"
    using assms by (simp add: Agent_addLink_def del: Agent_addLinks.simps)
  then show ?thesis by (rule Agent_addLinks_warnings)
next
  case (LinkList ds)
  then have "Agent_addLinks c s existing ds = (s', existing')"
    using assms by (simp add: Agent_addLink_def del: Agent_addLinks.simps)
  then show ?thesis by (rule Agent_addLinks_warnings)
next
  case LinkOther
  then show ?thesis using assms by (simp add: Agent_addLink_def)
qed

lemma Agent_update_warnings:
  assumes "Agent_update c s existing agent aliases link dates = Inr (s', updated)"
  shows "warnings s' = warnings s"
proof -
  let ?e1 = "existing\<lparr>agent_attrs := Agent_setFields (agent_attrs existing) agent\<rparr>"
  from assms obtain e2 s3 e3 where
    l: "Agent_addLink c (put_agent s e2) e2 link = (s3, e3)" and
    d: "Agent_addDates c s3 e3 dates = (s', updated)"
    by (auto simp: Agent_update_def Let_def split: sum.splits prod.splits)
  show ?thesis
    using Agent_addLink_warnings [OF l] Agent_addDates_warnings [OF d] by simp
qed

lemma Agent_updateOrInsert_warnings:
  assumes "Agent_updateOrInsert c s p = Inr ((agentRec, roles), s')"
  shows "warnings s' = warnings s"
proof -
  let ?agent = "(ap_fields p)(''birth_date'' := None, ''death_date'' := None)"
  let ?cn = "cleanName ?agent (case ap_roles p of None \<Rightarrow> [] | Some r \<Rightarrow> r)
               (case ap_dates p of None \<Rightarrow> [] | Some d \<Rightarrow> d)"
  obtain agent' roles' dates' where cn: "?cn = Inr (agent', roles', dates')"
  proof (cases ?cn)
    case (Inl e)
    then show ?thesis using Agent_updateOrInsert_uncleaned [of p e c s] assms by simp
  next
    case (Inr r)
    then show ?thesis using that by (cases r) auto
  qed
  obtain n where an: "agent' ''name'' = Some (Some n)"
    using cleanName_Inr [OF cn] by auto
  note u = Agent_updateOrInsert_cleaned [OF cn an, of c s]
  show ?thesis
  proof (cases "lookupAgent c s agent'")
    case (Inl e)
    then show ?thesis using u assms by (simp split: if_splits)
  next
    case (Inr x)
    show ?thesis
    proof (cases x)
      case None
      then show ?thesis using u assms Inr by (auto split: if_splits sum.splits)
    next
      case (Some i)
      then obtain existing where
        "Agent_update c s existing agent' (ap_aliases p) (ap_link p) dates' = Inr (s', agentRec)"
        using u Inr assms by (auto split: if_splits option.splits sum.splits)
      then show ?thesis by (rule Agent_update_warnings)
    qed
  qed
qed

lemma AgentInstances_create_warnings:
  "AgentInstances_create s i a role = (s', i', a') \<Longrightarrow> warnings s' = warnings s"
  by (auto simp: AgentInstances_create_def flush_agent_def Let_def split: option.splits)

lemma addRoles_warnings: "addRoles s i a roles = Inr (s', i') \<Longrightarrow> warnings s' = warnings s"
proof (induction roles arbitrary: s i a)
  case Nil
  then show ?case by simp
next
  case (Cons role roles)
  show ?case
  proof (cases "roleExists s a role (inst_id i)")
    case (Inl e)
    then show ?thesis using Cons.prems by simp
  next
    case (Inr r)
    show ?thesis
    proof (cases r)
      case None
      obtain s1 i1 a1 where c: "AgentInstances_create s i a role = (s1, i1, a1)"
        by (cases "AgentInstances_create s i a role") auto
      then have "addRoles s1 i1 a1 roles = Inr (s', i')"
        using Cons.prems Inr None by simp
      then have "warnings s' = warnings s1" by (rule Cons.IH)
      then show ?thesis using AgentInstances_create_warnings [OF c] by simp
    next
      case (Some row)
      then have "addRoles s i a roles = Inr (s', i')"
        using Cons.prems Inr by simp
      then show ?thesis by (rule Cons.IH)
    qed
  qed
qed

lemma addAgents_warnings:
  "addAgents c s i ps = Inr (s', i') \<Longrightarrow>
   warnings s' =
     warnings s @ map (\<lambda>p. ''Unable to read agent '' @ cleanedName p) (filter blankName ps)"
proof (induction ps arbitrary: s i)
  case Nil
  then show ?case by simp
next
  case (Cons p ps)
  show ?case
  proof (cases "Agent_updateOrInsert c s p")
    case (Inl e)
    then have e: "e = DataError" and
      rest: "addAgents c (warning s (''Unable to read agent '' @ cleanedName p)) i ps = Inr (s', i')"
      using Cons.prems by (auto split: if_splits)
    have b: "blankName p"
      using Inl e updateOrInsert_DataError_iff [of c s p] blankName_iff [of p] by simp
    show ?thesis
      using Cons.IH [OF rest] b by (simp add: warning_def)
  next
    case (Inr r)
    obtain a roles s1 where r: "r = ((a, roles), s1)" by (cases r) auto
    obtain s2 i2 where
      ar: "addRoles s1 i a (case roles of None \<Rightarrow> [''author''] | Some x \<Rightarrow> x) = Inr (s2, i2)"
      and rest: "addAgents c s2 i2 ps = Inr (s', i')"
      using Cons.prems Inr r by (auto simp: Let_def split: sum.splits)
    have nb: "\<not> blankName p"
      using Inr updateOrInsert_DataError_iff [of c s p] blankName_iff [of p] by simp
    have "warnings s2 = warnings s"
      using addRoles_warnings [OF ar] Agent_updateOrInsert_warnings [of c s p a roles s1] Inr r
      by simp
    then show ?thesis
      using Cons.IH [OF rest] nb by simp
  qed
qed

text \<open>
  C9.  \<open>Agent.updateOrInsert\<close> raises \<open>DataError\<close> exactly when the payload has a name
  and the cleaned name is empty or whitespace only.  When it does so for an agent of an
  instance, \<open>_addAgents\<close> goes on with the remaining agents from a session that differs
  only by one more warning, which names the agent, and with the instance as it was.  And
  whenever \<open>_addAgents\<close> returns, the log has grown by exactly one such warning for every
  agent of the list whose cleaned name is blank, in the order of the list.
\<close>

theorem updateOrInsert_DataError_skipped:
  "(Agent_updateOrInsert c s p = Inl DataError) =
     ((\<exists>raw. ap_fields p ''name'' = Some (Some raw)) \<and> py_strip_ws (cleanedName p) = []) \<and>
   (Agent_updateOrInsert c s p = Inl DataError \<longrightarrow>
      addAgents c s instance' (p # rest) =
        addAgents c (s\<lparr>warnings := warnings s @ [''Unable to read agent '' @ cleanedName p]\<rparr>)
          instance' rest) \<and>
   (addAgents c s instance' ps = Inr (s', instance'') \<longrightarrow>
      warnings s' =
        warnings s @ map (\<lambda>p. ''Unable to read agent '' @ cleanedName p) (filter blankName ps))"
proof (intro conjI impI)
  show "(Agent_updateOrInsert c s p = Inl DataError) =
          ((\<exists>raw. ap_fields p ''name'' = Some (Some raw)) \<and> py_strip_ws (cleanedName p) = [])"
    by (rule updateOrInsert_DataError_iff)
next
  assume d: "Agent_updateOrInsert c s p = Inl DataError"
  show "addAgents c s instance' (p # rest) =
          addAgents c (s\<lparr>warnings := warnings s @ [''Unable to read agent '' @ cleanedName p]\<rparr>)
            instance' rest"
    by (simp add: d warning_def)
next
  assume "addAgents c s instance' ps = Inr (s', instance'')"
  then show "warnings s' =
        warnings s @ map (\<lambda>p. ''Unable to read agent '' @ cleanedName p) (filter blankName ps)"
    by (rule addAgents_warnings)
qed

lemma cleanName_blank:
  "cleanName (f(''name'' \<mapsto> Some ''.,'')) roles dates =
   Inr (f(''name'' \<mapsto> Some [], ''sort_name'' \<mapsto> Some []), roles, dates)"
  by (simp add: cleanName_def unwrapName_def py_replace_def QUOTE_def match_bracketed_def
      parseLifespan_def life_at_def parseRoles_def role_at_def py_strip_def py_lstrip_def
      py_rstrip_def STRIP_CHARS_def DQUOTE_def Let_def)

lemma blank_fields:
  "(ap_fields blank_payload)(''birth_date'' := None, ''death_date'' := None) =
   [''viaf'' \<mapsto> None, ''lcnaf'' \<mapsto> None, ''name'' \<mapsto> Some ''.,'']"
  by (auto simp: blank_payload_def empty_agent_payload_def)

lemma smith_fields:
  "(ap_fields smith_payload)(''birth_date'' := None, ''death_date'' := None) =
   [''viaf'' \<mapsto> None, ''lcnaf'' \<mapsto> None, ''name'' \<mapsto> Some ''Smith, John'']"
  by (auto simp: smith_payload_def empty_agent_payload_def)

lemma cleanedName_blank: "cleanedName blank_payload = []"
  unfolding cleanedName_def blank_fields by (simp add: cleanName_blank)

lemma lower_author: "py_lower ''author'' = ''author''"
  by (simp add: py_lower_def lower_char_def)

lemma cleanName_author:
  "cleanName ((ap_fields author_payload)(''birth_date'' := None, ''death_date'' := None))
     (case ap_roles author_payload of None \<Rightarrow> [] | Some r \<Rightarrow> r)
     (case ap_dates author_payload of None \<Rightarrow> [] | Some d \<Rightarrow> d) =
   Inr (cleaned_smith, [''author''], [])"
proof -
  have f: "(ap_fields author_payload)(''birth_date'' := None, ''death_date'' := None) =
           [''viaf'' \<mapsto> None, ''lcnaf'' \<mapsto> None, ''name'' \<mapsto> Some ''Smith, John'']"
    using smith_fields by (simp add: author_payload_def)
  show ?thesis
    unfolding f
    by (simp add: cleanName_Smith cleaned_smith_def author_payload_def smith_payload_def
        empty_agent_payload_def)
qed

lemma cleaned_smith_name: "cleaned_smith ''name'' = Some (Some ''Smith, John'')"
  by (simp add: cleaned_smith_def)

lemma cleanedName_author: "cleanedName author_payload = ''Smith, John''"
  using cleanedName_eq [OF cleanName_author cleaned_smith_name] .

lemma updateOrInsert_author:
  assumes "agents s = []"
  shows "\<exists>newAgent. Agent_updateOrInsert fresh_collab s author_payload =
                       Inr ((newAgent, Some [''author'']), s) \<and>
                     agent_id newAgent = None"
proof -
  note cn = cleanName_author
  note nm = cleaned_smith_name
  obtain newAgent where
    ins: "Agent_insert fresh_collab cleaned_smith (ap_aliases author_payload)
            (ap_link author_payload) [] = Inr newAgent"
    and i: "agent_id newAgent = None"
    using Agent_insert_cleaned_smith by blast
  have "Agent_updateOrInsert fresh_collab s author_payload = Inr ((newAgent, Some [''author'']), s)"
    using Agent_updateOrInsert_cleaned [OF cn nm, of fresh_collab s]
    by (simp add: strip_ws_Smith lookupAgent_cleaned_smith [OF assms] ins lower_author)
  then show ?thesis using i by blast
qed

theorem updateOrInsert_DataError_skipped_witness:
  "ap_fields blank_payload ''name'' = Some (Some ''.,'') \<and>
   py_strip_ws (cleanedName blank_payload) = [] \<and>
   Agent_updateOrInsert fresh_collab one_instance_session blank_payload = Inl DataError \<and>
   (\<exists>s' i'.
      addAgents fresh_collab one_instance_session (stored_instance 1 Map.empty)
        [blank_payload, author_payload] = Inr (s', i') \<and>
      warnings s' = [''Unable to read agent ''] \<and>
      agent_instances s' = [(1, 1, ''author'')])"
proof -
  let ?i = "stored_instance 1 Map.empty"
  let ?sw = "one_instance_session\<lparr>warnings := warnings one_instance_session @
               [''Unable to read agent '' @ cleanedName blank_payload]\<rparr>"
  have n: "ap_fields blank_payload ''name'' = Some (Some ''.,'')"
    by (simp add: blank_payload_def empty_agent_payload_def)
  have w: "py_strip_ws (cleanedName blank_payload) = []"
    by (simp add: cleanedName_blank py_strip_ws_def py_strip_def py_lstrip_def py_rstrip_def)
  have d: "Agent_updateOrInsert fresh_collab one_instance_session blank_payload = Inl DataError"
    using updateOrInsert_DataError_skipped [of fresh_collab one_instance_session blank_payload]
      n w by blast
  have step: "addAgents fresh_collab one_instance_session ?i [blank_payload, author_payload] =
              addAgents fresh_collab ?sw ?i [author_payload]"
    using updateOrInsert_DataError_skipped [of fresh_collab one_instance_session blank_payload
        ?i "[author_payload]"] d by blast
  have ag: "agents ?sw = []"
    by (simp add: one_instance_session_def empty_session_def)
  obtain newAgent where
    u: "Agent_updateOrInsert fresh_collab ?sw author_payload = Inr ((newAgent, Some [''author'']), ?sw)"
    and i: "agent_id newAgent = None"
    using updateOrInsert_author [OF ag] by blast
  have a1: "addAgents fresh_collab ?sw ?i [author_payload] =
            (case addRoles ?sw ?i newAgent [''author''] of
               Inl e \<Rightarrow> Inl e
             | Inr (s2, i2) \<Rightarrow> Inr (s2, i2))"
    unfolding addAgents.simps u by (simp split: sum.splits)
  have a2: "\<exists>s2 i2. addRoles ?sw ?i newAgent [''author''] = Inr (s2, i2) \<and>
              agent_instances s2 = [(1, 1, ''author'')]"
    by (simp add: i roleExists_def one_or_none_def AgentInstances_create_def flush_agent_def
        fresh_agent_id_def put_instance_def one_instance_session_def empty_session_def
        stored_instance_def Let_def)
  have "\<exists>s' i'. addAgents fresh_collab ?sw ?i [author_payload] = Inr (s', i') \<and>
          agent_instances s' = [(1, 1, ''author'')]"
    using a1 a2 by auto
  then obtain s' i' where
    r: "addAgents fresh_collab one_instance_session ?i [blank_payload, author_payload] = Inr (s', i')"
    and a: "agent_instances s' = [(1, 1, ''author'')]"
    using step by auto
  have nb: "\<not> blankName author_payload"
    unfolding blankName_iff cleanedName_author by (simp add: strip_ws_Smith)
  have b: "blankName blank_payload"
    by (simp add: blankName_def n w)
  have "warnings s' = [''Unable to read agent '']"
    using updateOrInsert_DataError_skipped [of fresh_collab one_instance_session blank_payload
        ?i "[]" "[blank_payload, author_payload]" s' i'] r nb b
    by (simp add: cleanedName_blank one_instance_session_def empty_session_def)
  then show ?thesis using n w d r a by blast
qed

subsection \<open>Roles of an agent on an instance\<close>

lemma updateOrInsert_roles_list:
  assumes "Agent_updateOrInsert c s p = Inr ((agentRec, roles), s')"
  shows "roles \<noteq> None"
proof -
  let ?agent = "(ap_fields p)(''birth_date'' := None, ''death_date'' := None)"
  let ?cn = "cleanName ?agent (case ap_roles p of None \<Rightarrow> [] | Some r \<Rightarrow> r)
               (case ap_dates p of None \<Rightarrow> [] | Some d \<Rightarrow> d)"
  obtain agent' roles' dates' where cn: "?cn = Inr (agent', roles', dates')"
  proof (cases ?cn)
    case (Inl e)
    then show ?thesis using Agent_updateOrInsert_uncleaned [of p e c s] assms by simp
  next
    case (Inr r)
    then show ?thesis using that by (cases r) auto
  qed
  obtain n where an: "agent' ''name'' = Some (Some n)"
    using cleanName_Inr [OF cn] by auto
  show ?thesis
    using Agent_updateOrInsert_cleaned [OF cn an, of c s] assms
    by (auto split: if_splits sum.splits option.splits)
qed

lemma updateOrInsert_smith:
  "\<exists>newAgent. Agent_updateOrInsert fresh_collab one_instance_session smith_payload =
                 Inr ((newAgent, Some []), one_instance_session)"
proof -
  have cn: "cleanName ((ap_fields smith_payload)(''birth_date'' := None, ''death_date'' := None))
             (case ap_roles smith_payload of None \<Rightarrow> [] | Some r \<Rightarrow> r)
             (case ap_dates smith_payload of None \<Rightarrow> [] | Some d \<Rightarrow> d) =
            Inr (cleaned_smith, [], [])"
    unfolding smith_fields
    by (simp add: cleanName_Smith cleaned_smith_def smith_payload_def empty_agent_payload_def)
  have ag: "agents one_instance_session = []"
    by (simp add: one_instance_session_def empty_session_def)
  obtain newAgent where
    ins: "Agent_insert fresh_collab cleaned_smith (ap_aliases smith_payload)
            (ap_link smith_payload) [] = Inr newAgent"
    using Agent_insert_cleaned_smith by blast
  have "Agent_updateOrInsert fresh_collab one_instance_session smith_payload =
          Inr ((newAgent, Some []), one_instance_session)"
    using Agent_updateOrInsert_cleaned [OF cn cleaned_smith_name, of fresh_collab one_instance_session]
    by (simp add: strip_ws_Smith lookupAgent_cleaned_smith [OF ag] ins)
  then show ?thesis by blast
qed

text \<open>
  C3.  An agent whose payload names no role: \<open>updateOrInsert\<close> returns the empty list of
  roles, which is not \<open>None\<close>, so \<open>_addAgents\<close> does not take the default
  \<open>['author']\<close> and creates no \<open>AgentInstances\<close> row: the table and the instance's
  collection stay as they were.
\<close>

theorem addAgents_no_default_role:
  "addAgents fresh_collab one_instance_session (stored_instance 1 Map.empty) [smith_payload] =
     Inr (one_instance_session, stored_instance 1 Map.empty) \<and>
   agent_instances one_instance_session = [] \<and>
   inst_agent_instances (stored_instance 1 Map.empty) = []"
proof -
  obtain newAgent where
    u: "Agent_updateOrInsert fresh_collab one_instance_session smith_payload =
          Inr ((newAgent, Some []), one_instance_session)"
    using updateOrInsert_smith by blast
  have "addAgents fresh_collab one_instance_session (stored_instance 1 Map.empty) [smith_payload] =
          Inr (one_instance_session, stored_instance 1 Map.empty)"
    unfolding addAgents.simps u by simp
  then show ?thesis
    by (simp add: one_instance_session_def empty_session_def stored_instance_def)
qed

subsection \<open>The scalar overwrite rule\<close>

lemma Agent_update_overwrites_iff:
  assumes "Agent_update c s existing agent aliases link dates = Inr (s', updated)"
      and "agent field = Some v"
  shows "agent_attrs updated field =
           (case v of
              None \<Rightarrow> agent_attrs existing field
            | Some x \<Rightarrow> if py_strip_ws x \<noteq> [] then Some x else agent_attrs existing field)"
  using Agent_update_attrs [OF assms(1)] assms(2)
  by (simp add: Agent_setFields_def split: option.splits)

text \<open>
  C1.  \<open>Instance.update\<close> with the payload \<open>{'title': ''}\<close> on an instance whose title is
  \<open>Old title\<close> overwrites the title with the empty string; \<open>Agent.update\<close> with the
  payload \<open>{'biography': ''}\<close> leaves the biography of the agent as it was.
\<close>

theorem Instance_update_blank_overwrites:
  "(\<exists>s' updated.
      Instance_update c s (stored_instance 1 [''title'' \<mapsto> ''Old title'']) blank_title_payload =
        Inr (s', updated) \<and>
      inst_attrs updated ''title'' = Some '''') \<and>
   (\<exists>s' updated.
      Agent_update c s (stored_agent 1 [''biography'' \<mapsto> ''Old text''])
        [''biography'' \<mapsto> Some ''''] (Some []) (LinkList []) [] = Inr (s', updated) \<and>
      agent_attrs updated ''biography'' = Some ''Old text'')"
proof
  show "\<exists>s' updated.
      Instance_update c s (stored_instance 1 [''title'' \<mapsto> ''Old title'']) blank_title_payload =
        Inr (s', updated) \<and>
      inst_attrs updated ''title'' = Some ''''"
    by (simp add: Instance_update_def Instance_updateWork_def Instance_setFields_def
        blank_title_payload_def empty_instance_payload_def stored_instance_def addLanguages_def
        addAltTitles_def Let_def)
next
  show "\<exists>s' updated.
      Agent_update c s (stored_agent 1 [''biography'' \<mapsto> ''Old text''])
        [''biography'' \<mapsto> Some ''''] (Some []) (LinkList []) [] = Inr (s', updated) \<and>
      agent_attrs updated ''biography'' = Some ''Old text''"
    by (simp add: Agent_update_def Agent_addAliases_def Agent_addLink_def Agent_setFields_def
        stored_agent_def py_strip_ws_def py_strip_def py_lstrip_def py_rstrip_def Let_def)
qed

subsection \<open>Agent lookup\<close>

lemma lookupAgent_authority:
  assumes "agent ''viaf'' = Some viaf" and "agent ''lcnaf'' = Some lcnaf"
      and "viaf \<noteq> None \<or> lcnaf \<noteq> None"
  shows "lookupAgent c s agent =
           (case one (filter (authority_match viaf lcnaf) (agents s)) of
              One a \<Rightarrow> Inr (agent_id a)
            | MultipleResults \<Rightarrow> Inl MultipleResultsFound
            | NoResultFound \<Rightarrow> lookupAgent_byName c s agent)"
  using assms by (auto simp: lookupAgent_def)

lemma fuzzy_Smith:
  "fuzzy_match fresh_collab ''Smith, John''
     (stored_agent 1 [''name'' \<mapsto> ''Smith, John'', ''viaf'' \<mapsto> ''v2'', ''lcnaf'' \<mapsto> ''n2''])"
  by (simp add: fuzzy_match_def fresh_collab_def exact_score_def stored_agent_def)

lemma no_authority_Smith:
  "filter (authority_match (Some ''v1'') (Some ''n1'')) (agents authority_session) = []"
  by (simp add: authority_session_def empty_session_def authority_match_def stored_agent_def)

text \<open>
  C2.  The payload carries the identifiers \<open>v1\<close> and \<open>n1\<close> and the name
  \<open>Smith, John\<close>; the one stored agent, with id 1, has the identifiers \<open>v2\<close> and
  \<open>n2\<close> and the same name.  The query on the identifiers finds no agent, the lookup
  goes on to the match on the name, and the id of agent 1, which shares neither
  identifier of the payload, is returned.
\<close>

theorem lookupAgent_other_authority:
  "other_authority_fields ''viaf'' = Some (Some ''v1'') \<and>
   other_authority_fields ''lcnaf'' = Some (Some ''n1'') \<and>
   other_authority_fields ''name'' = Some (Some ''Smith, John'') \<and>
   map agent_id (agents authority_session) = [Some 1] \<and>
   map (\<lambda>a. agent_attrs a ''viaf'') (agents authority_session) = [Some ''v2''] \<and>
   map (\<lambda>a. agent_attrs a ''lcnaf'') (agents authority_session) = [Some ''n2''] \<and>
   lookupAgent fresh_collab authority_session other_authority_fields = Inr (Some 1)"
proof -
  have v: "other_authority_fields ''viaf'' = Some (Some ''v1'')"
    and l: "other_authority_fields ''lcnaf'' = Some (Some ''n1'')"
    and n: "other_authority_fields ''name'' = Some (Some ''Smith, John'')"
    by (simp_all add: other_authority_fields_def)
  have "lookupAgent fresh_collab authority_session other_authority_fields =
          lookupAgent_byName fresh_collab authority_session other_authority_fields"
    using lookupAgent_authority [OF v l, of fresh_collab authority_session]
    by (simp add: no_authority_Smith one_def)
  also have "\<dots> = Inr (Some 1)"
    using lookupAgent_byName_query [of other_authority_fields "''Smith, John''" "''Smith, John''"
        fresh_collab authority_session] n esc_Smith bind_Smith fuzzy_Smith
    by (simp add: authority_session_def empty_session_def one_def stored_agent_def)
  finally show ?thesis
    using v l n by (simp add: authority_session_def empty_session_def stored_agent_def)
qed

theorem lookupAgent_other_authority_witness:
  "filter (authority_match (Some ''v1'') (Some ''n1'')) (agents authority_session) = [] \<and>
   lookupAgent fresh_collab authority_session other_authority_fields = Inr (Some 1)"
  using lookupAgent_other_authority no_authority_Smith by simp

end
